theory Spec2Isabelle
  imports Complex_Main "HOL-Library.Word"
begin

chapter \<open>ai-code-sandbox: pool, sandbox lifecycle and worker protocol\<close>

text \<open>
  A shallow embedding of \<^verbatim>\<open>ai_code_sandbox/container_pool.py\<close>,
  \<^verbatim>\<open>ai_code_sandbox/sandbox.py\<close> and \<^verbatim>\<open>scripts/persistent_worker.py\<close>.
  The Docker daemon, the clock, the shell and the JSON parser are collaborators of the
  code: the daemon is an explicit state that every runtime call transforms, and what a
  collaborator answers (a call that raises, the status a reload observes, the bytes an
  exec produces) is an explicit argument of the function that makes the call.
\<close>

section \<open>Text and bytes\<close>

text \<open>
  A Python \<^verbatim>\<open>str\<close> is a list of Unicode code points, a \<^verbatim>\<open>bytes\<close> value a list
  of 8-bit words. \<open>lit\<close> turns a literal of the theory into a \<^verbatim>\<open>str\<close>.
\<close>

type_synonym str = "nat list"
type_synonym bytes = "8 word list"

definition lit :: "string \<Rightarrow> str" where
  "lit s = map of_char s"

text \<open>The exceptions the modelled code raises or lets through.\<close>

datatype exn =
    NotFound
  | APIError
  | RuntimeError str
  | UnicodeDecodeError
  | TypeError
  | DockerException
  | AttributeError

section \<open>The Docker daemon\<close>

datatype status = Created | Running | Exited

text \<open>A docker-py container handle: the daemon's id and the container's name.\<close>

record container =
  cid :: nat
  cname :: str

text \<open>An image is named by a tag or by the id the daemon gave a built image.\<close>

datatype image_ref = Tag str | ImageId nat

text \<open>The keyword arguments of \<^verbatim>\<open>client.containers.run\<close> that the code sets.\<close>

record run_args =
  r_image :: image_ref
  r_name :: str
  r_command :: str
  r_network_mode :: str
  r_dns :: "str list"
  r_mem_limit :: str
  r_cpu_period :: int
  r_cpu_quota :: int
  r_remove :: bool

text \<open>The calls that change the daemon, in the order the code issued them.\<close>

datatype event =
    Run run_args
  | Start container
  | Stop container
  | Remove container
  | Build str
  | ImageRemove nat

record docker =
  conts :: "(container \<times> status) list"
  images :: "nat list"
  next_id :: nat
  log :: "event list"

definition emit :: "event \<Rightarrow> docker \<Rightarrow> docker" where
  "emit e w = w\<lparr>log := log w @ [e]\<rparr>"

definition find_name :: "str \<Rightarrow> docker \<Rightarrow> (container \<times> status) option" where
  "find_name n w = find (\<lambda>(c, s). cname c = n) (conts w)"

definition find_id :: "nat \<Rightarrow> docker \<Rightarrow> (container \<times> status) option" where
  "find_id i w = find (\<lambda>(c, s). cid c = i) (conts w)"

definition set_status :: "nat \<Rightarrow> status \<Rightarrow> docker \<Rightarrow> docker" where
  "set_status i s w =
     w\<lparr>conts := map (\<lambda>(c, s'). if cid c = i then (c, s) else (c, s')) (conts w)\<rparr>"

definition delete_cont :: "nat \<Rightarrow> docker \<Rightarrow> docker" where
  "delete_cont i w = w\<lparr>conts := filter (\<lambda>(c, s). cid c \<noteq> i) (conts w)\<rparr>"

text \<open>
  \<^verbatim>\<open>client.containers.run(..., detach=True)\<close>: the daemon creates and starts a
  container under a fresh id. It refuses a name that is taken; \<open>ok\<close> says whether it
  accepts the call otherwise.
\<close>

definition docker_run :: "bool \<Rightarrow> run_args \<Rightarrow> docker \<Rightarrow> (exn + container) \<times> docker" where
  "docker_run ok a w =
     (if ok \<and> find_name (r_name a) w = None then
        (Inr \<lparr>cid = next_id w, cname = r_name a\<rparr>,
         emit (Run a)
           (w\<lparr>conts := conts w @ [(\<lparr>cid = next_id w, cname = r_name a\<rparr>, Running)],
              next_id := Suc (next_id w)\<rparr>))
      else (Inl APIError, emit (Run a) w))"

text \<open>\<^verbatim>\<open>container.stop()\<close>: raises when the daemon refuses or no longer has the container.\<close>

definition docker_stop :: "bool \<Rightarrow> container \<Rightarrow> docker \<Rightarrow> exn option \<times> docker" where
  "docker_stop ok c w =
     (if find_id (cid c) w = None then (Some NotFound, emit (Stop c) w)
      else if ok then (None, emit (Stop c) (set_status (cid c) Exited w))
      else (Some APIError, emit (Stop c) w))"

text \<open>\<^verbatim>\<open>container.remove(force=True)\<close>.\<close>

definition docker_remove :: "bool \<Rightarrow> container \<Rightarrow> docker \<Rightarrow> exn option \<times> docker" where
  "docker_remove ok c w =
     (if find_id (cid c) w = None then (Some NotFound, emit (Remove c) w)
      else if ok then (None, emit (Remove c) (delete_cont (cid c) w))
      else (Some APIError, emit (Remove c) w))"

text \<open>\<^verbatim>\<open>client.images.build(fileobj=..., rm=True)[0]\<close>: a fresh image id, or a build error.\<close>

definition docker_build :: "bool \<Rightarrow> str \<Rightarrow> docker \<Rightarrow> (exn + nat) \<times> docker" where
  "docker_build ok dockerfile w =
     (if ok then
        (Inr (next_id w),
         emit (Build dockerfile) (w\<lparr>images := images w @ [next_id w], next_id := Suc (next_id w)\<rparr>))
      else (Inl APIError, emit (Build dockerfile) w))"

text \<open>\<^verbatim>\<open>client.images.remove(id, force=True)\<close>.\<close>

definition docker_image_remove :: "bool \<Rightarrow> nat \<Rightarrow> docker \<Rightarrow> exn option \<times> docker" where
  "docker_image_remove ok i w =
     (if ok \<and> i \<in> set (images w) then
        (None, emit (ImageRemove i) (w\<lparr>images := removeAll i (images w)\<rparr>))
      else (Some APIError, emit (ImageRemove i) w))"

section \<open>container\_pool.py\<close>

record pool =
  pool_size :: int
  image_name :: str
  containers :: "container list"
  in_use :: "nat set"

text \<open>The arguments of the \<^verbatim>\<open>run\<close> call of \<^verbatim>\<open>_init_pool\<close>; \<open>u\<close> is \<^verbatim>\<open>uuid.uuid4().hex\<close>.\<close>

definition pool_run_args :: "str \<Rightarrow> str \<Rightarrow> run_args" where
  "pool_run_args img u =
     \<lparr>r_image = Tag img, r_name = lit ''sandbox_pool_'' @ take 8 u,
      r_command = lit ''tail -f /dev/null'', r_network_mode = lit ''none'', r_dns = [],
      r_mem_limit = lit ''100m'', r_cpu_period = 100000, r_cpu_quota = 50000,
      r_remove = True\<rparr>"

text \<open>
  One iteration of the loop of \<^verbatim>\<open>_init_pool\<close>: a container that cannot be created
  is logged and skipped. \<open>uuids i\<close> and \<open>oks i\<close> are the uuid drawn and the daemon's
  answer in iteration \<open>i\<close>.
\<close>

definition init_step ::
  "(nat \<Rightarrow> str) \<Rightarrow> (nat \<Rightarrow> bool) \<Rightarrow> nat \<Rightarrow> pool \<times> docker \<Rightarrow> pool \<times> docker" where
  "init_step uuids oks i pw =
     (case docker_run (oks i) (pool_run_args (image_name (fst pw)) (uuids i)) (snd pw) of
        (Inr c, w') \<Rightarrow> ((fst pw)\<lparr>containers := containers (fst pw) @ [c]\<rparr>, w')
      | (Inl e, w') \<Rightarrow> (fst pw, w'))"

definition init_pool ::
  "(nat \<Rightarrow> str) \<Rightarrow> (nat \<Rightarrow> bool) \<Rightarrow> pool \<Rightarrow> docker \<Rightarrow> pool \<times> docker" where
  "init_pool uuids oks p w = fold (init_step uuids oks) [0..<nat (pool_size p)] (p, w)"

text \<open>
  The value passed as \<^verbatim>\<open>pool_size\<close>: an int, or a value of another type, on which
  \<^verbatim>\<open>range(self.pool_size)\<close> raises \<^verbatim>\<open>TypeError\<close>.
\<close>

datatype size_arg = IntArg int | OtherArg

text \<open>
  What the runtime answers during one \<^verbatim>\<open>ContainerPool(...)\<close>: whether
  \<^verbatim>\<open>docker.from_env()\<close> returns a client (it raises when the daemon cannot be
  reached), the uuids drawn and the daemon's answers to the \<^verbatim>\<open>run\<close> calls.
\<close>

record pool_env =
  client_ok :: bool
  pool_uuids :: "nat \<Rightarrow> str"
  pool_oks :: "nat \<Rightarrow> bool"

text \<open>
  \<^verbatim>\<open>ContainerPool.__init__\<close>. Neither \<^verbatim>\<open>docker.from_env()\<close> nor the
  \<^verbatim>\<open>range\<close> of \<^verbatim>\<open>_init_pool\<close> is inside a \<^verbatim>\<open>try\<close>: their exceptions leave
  the constructor.
\<close>

definition ContainerPool :: "pool_env \<Rightarrow> size_arg \<Rightarrow> str \<Rightarrow> docker \<Rightarrow> (exn + pool) \<times> docker" where
  "ContainerPool env a img w =
     (if \<not> client_ok env then (Inl DockerException, w)
      else (case a of
              OtherArg \<Rightarrow> (Inl TypeError, w)
            | IntArg n \<Rightarrow>
                (case init_pool (pool_uuids env) (pool_oks env)
                        \<lparr>pool_size = n, image_name = img, containers = [], in_use = {}\<rparr> w of
                   (p, w') \<Rightarrow> (Inr p, w'))))"

text \<open>
  \<^verbatim>\<open>acquire\<close>. \<open>clock k\<close> is the value, in seconds, of the \<open>k\<close>-th call of
  \<^verbatim>\<open>time.time()\<close> in the process. A call of \<^verbatim>\<open>acquire\<close> that makes call number
  \<open>k\<close> for \<^verbatim>\<open>start\<close> tests its loop guard on each later reading; between two tests
  lie a scan of the members in list order, which takes the first whose id is not in use,
  and \<^verbatim>\<open>time.sleep(0.1)\<close>. The result comes with the number of the last reading; a
  loop that never ends is \<open>None\<close>. No other caller runs meanwhile.
\<close>

partial_function (option) acquire_loop ::
  "(nat \<Rightarrow> real) \<Rightarrow> real \<Rightarrow> real \<Rightarrow> nat \<Rightarrow> pool \<Rightarrow> ((exn + container) \<times> pool \<times> nat) option" where
  "acquire_loop clock start timeout k p =
     (if clock k - start < timeout then
        (case find (\<lambda>c. cid c \<notin> in_use p) (containers p) of
           Some c \<Rightarrow> Some (Inr c, p\<lparr>in_use := insert (cid c) (in_use p)\<rparr>, k)
         | None \<Rightarrow> acquire_loop clock start timeout (Suc k) p)
      else Some (Inl (RuntimeError (lit ''No containers available in pool'')), p, k))"

definition acquire ::
  "(nat \<Rightarrow> real) \<Rightarrow> real \<Rightarrow> nat \<Rightarrow> pool \<Rightarrow> ((exn + container) \<times> pool \<times> nat) option" where
  "acquire clock timeout k p = acquire_loop clock (clock k) timeout (Suc k) p"

text \<open>\<^verbatim>\<open>release\<close>: \<^verbatim>\<open>self.in_use.discard(container.id)\<close>.\<close>

definition release :: "container \<Rightarrow> pool \<Rightarrow> pool" where
  "release c p = p\<lparr>in_use := in_use p - {cid c}\<rparr>"

text \<open>
  \<open>n\<close> calls of \<^verbatim>\<open>acquire\<close> in a row on one clock, with no release between them; the
  first makes reading number \<open>k\<close>, each next one the reading after the last of the call
  before it. An exception is a result like any other: the caller goes on.
\<close>

fun acquire_many ::
  "(nat \<Rightarrow> real) \<Rightarrow> nat \<Rightarrow> real \<Rightarrow> nat \<Rightarrow> pool \<Rightarrow> ((exn + container) list \<times> pool \<times> nat) option" where
  "acquire_many clock 0 timeout k p = Some ([], p, k)"
| "acquire_many clock (Suc n) timeout k p =
     (case acquire clock timeout k p of
        None \<Rightarrow> None
      | Some (r, p', k') \<Rightarrow>
          (case acquire_many clock n timeout (Suc k') p' of
             None \<Rightarrow> None
           | Some (rs, p'', k'') \<Rightarrow> Some (r # rs, p'', k'')))"

text \<open>
  The module variable \<^verbatim>\<open>_pool\<close> and \<^verbatim>\<open>get_pool\<close>, which constructs the pool
  (on the default image) only while the variable is \<^verbatim>\<open>None\<close>, and assigns it only
  when the constructor returns.
\<close>

record globals =
  pool_var :: "pool option"
  daemon :: docker

definition get_pool :: "pool_env \<Rightarrow> size_arg \<Rightarrow> globals \<Rightarrow> (exn + pool) \<times> globals" where
  "get_pool env a g =
     (case pool_var g of
        None \<Rightarrow>
          (case ContainerPool env a (lit ''python:3.9-slim'') (daemon g) of
             (Inl e, w') \<Rightarrow> (Inl e, g\<lparr>daemon := w'\<rparr>)
           | (Inr p, w') \<Rightarrow> (Inr p, g\<lparr>pool_var := Some p, daemon := w'\<rparr>))
      | Some p \<Rightarrow> (Inr p, g))"

text \<open>
  A sequence of \<^verbatim>\<open>get_pool\<close> calls, each with its argument and what the runtime
  would answer; a call that raises does not stop the ones after it.
\<close>

fun get_pool_calls :: "(pool_env \<times> size_arg) list \<Rightarrow> globals \<Rightarrow> (exn + pool) list \<times> globals" where
  "get_pool_calls [] g = ([], g)"
| "get_pool_calls ((env, a) # cs) g =
     (case get_pool env a g of
        (r, g') \<Rightarrow> (case get_pool_calls cs g' of (rs, g'') \<Rightarrow> (r # rs, g'')))"

text \<open>
  Sample values: a daemon with no container; a runtime that gives a client, distinct
  uuids and accepts every \<^verbatim>\<open>run\<close>, and one that gives no client; a clock that
  advances by a tenth of a second from one reading to the next.
\<close>

definition empty_daemon :: docker where
  "empty_daemon = \<lparr>conts = [], images = [], next_id = 0, log = []\<rparr>"

definition sample_uuids :: "nat \<Rightarrow> str" where
  "sample_uuids i = lit ''c0ffee0'' @ [48 + i mod 10]"

definition pool_ok :: pool_env where
  "pool_ok = \<lparr>client_ok = True, pool_uuids = sample_uuids, pool_oks = (\<lambda>i. True)\<rparr>"

definition no_client :: pool_env where
  "no_client = \<lparr>client_ok = False, pool_uuids = sample_uuids, pool_oks = (\<lambda>i. True)\<rparr>"

definition tenths :: "nat \<Rightarrow> real" where
  "tenths k = real k / 10"

section \<open>UTF-8\<close>

text \<open>
  \<^verbatim>\<open>bytes.decode('utf-8')\<close>, on the byte values. \<open>utf8_head\<close> reads one well-formed
  sequence (no overlong form, no surrogate, nothing above U+10FFFF) and returns its code
  point and the bytes after it.
\<close>

definition cont :: "nat \<Rightarrow> bool" where
  "cont b = (0x80 \<le> b \<and> b \<le> 0xBF)"

fun utf8_head :: "nat list \<Rightarrow> (nat \<times> nat list) option" where
  "utf8_head [] = None"
| "utf8_head (a # bs) =
     (if a < 0x80 then Some (a, bs)
      else if 0xC2 \<le> a \<and> a \<le> 0xDF then
        (case bs of
           b # r \<Rightarrow> if cont b then Some ((a - 0xC0) * 64 + (b - 0x80), r) else None
         | _ \<Rightarrow> None)
      else if 0xE0 \<le> a \<and> a \<le> 0xEF then
        (case bs of
           b # c # r \<Rightarrow>
             if (if a = 0xE0 then 0xA0 else 0x80) \<le> b \<and> b \<le> (if a = 0xED then 0x9F else 0xBF)
                \<and> cont c
             then Some (((a - 0xE0) * 64 + (b - 0x80)) * 64 + (c - 0x80), r) else None
         | _ \<Rightarrow> None)
      else if 0xF0 \<le> a \<and> a \<le> 0xF4 then
        (case bs of
           b # c # d # r \<Rightarrow>
             if (if a = 0xF0 then 0x90 else 0x80) \<le> b \<and> b \<le> (if a = 0xF4 then 0x8F else 0xBF)
                \<and> cont c \<and> cont d
             then Some ((((a - 0xF0) * 64 + (b - 0x80)) * 64 + (c - 0x80)) * 64 + (d - 0x80), r)
             else None
         | _ \<Rightarrow> None)
      else None)"

text \<open>The strict decoder: \<open>None\<close> is \<^verbatim>\<open>UnicodeDecodeError\<close>.\<close>

function utf8_decode :: "nat list \<Rightarrow> str option" where
  "utf8_decode bs =
     (if bs = [] then Some []
      else (case utf8_head bs of
              None \<Rightarrow> None
            | Some (c, r) \<Rightarrow> map_option ((#) c) (utf8_decode r)))"
  by pat_completeness auto
termination
  by (relation "measure length") (auto simp: neq_Nil_conv split: if_splits list.splits)

text \<open>
  \<^verbatim>\<open>bytes.decode('utf-8', errors='ignore')\<close>: a byte that starts no well-formed
  sequence is dropped.
\<close>

function utf8_decode_ignore :: "nat list \<Rightarrow> str" where
  "utf8_decode_ignore bs =
     (if bs = [] then []
      else (case utf8_head bs of
              None \<Rightarrow> utf8_decode_ignore (tl bs)
            | Some (c, r) \<Rightarrow> c # utf8_decode_ignore r))"
  by pat_completeness auto
termination
  by (relation "measure length") (auto simp: neq_Nil_conv split: if_splits list.splits)

section \<open>sandbox.py: run\_code\<close>

text \<open>\<^verbatim>\<open>str(n)\<close> for an integer.\<close>

fun digits :: "nat \<Rightarrow> str" where
  "digits n = (if n < 10 then [48 + n] else digits (n div 10) @ [48 + n mod 10])"

definition str_int :: "int \<Rightarrow> str" where
  "str_int i = (if i < 0 then 45 # digits (nat (- i)) else digits (nat i))"

text \<open>\<^verbatim>\<open>sep.join(xs)\<close>.\<close>

fun join :: "str \<Rightarrow> str list \<Rightarrow> str" where
  "join sep [] = []"
| "join sep [x] = x"
| "join sep (x # y # ys) = x @ sep @ join sep (y # ys)"

text \<open>\<^verbatim>\<open>s.replace("'", "'\"'\"'")\<close>: every single quote (39) becomes \<^verbatim>\<open>'"'"'\<close>.\<close>

fun replace_quote :: "str \<Rightarrow> str" where
  "replace_quote [] = []"
| "replace_quote (c # cs) =
     (if c = 39 then [39, 34, 39, 34, 39] @ replace_quote cs else c # replace_quote cs)"

text \<open>
  \<^verbatim>\<open>shlex.quote\<close>: the empty string is \<^verbatim>\<open>''\<close>, a string of safe characters
  (\<^verbatim>\<open>[\w@%+=:,./-]\<close>, ASCII) is left alone, any other is put in single quotes.
\<close>

definition alnum :: "nat \<Rightarrow> bool" where
  "alnum c = ((48 \<le> c \<and> c \<le> 57) \<or> (65 \<le> c \<and> c \<le> 90) \<or> (97 \<le> c \<and> c \<le> 122))"

definition shlex_safe :: "nat \<Rightarrow> bool" where
  "shlex_safe c = (alnum c \<or> c \<in> set (lit ''_@%+=:,./-''))"

definition shlex_quote :: "str \<Rightarrow> str" where
  "shlex_quote s =
     (if s = [] then [39, 39]
      else if list_all shlex_safe s then s
      else [39] @ replace_quote s @ [39])"

text \<open>
  Lines 192 to 194 of \<^verbatim>\<open>run_code\<close>: the command line handed to \<^verbatim>\<open>sh -c\<close>.
  \<open>env_vars\<close> is the dict in item order, \<open>code\<close> the dedented code.
\<close>

definition env_str :: "(str \<times> str) list \<Rightarrow> str" where
  "env_str env_vars = join [32] (map (\<lambda>(k, v). k @ [61] @ shlex_quote v) env_vars)"

definition exec_command :: "(str \<times> str) list \<Rightarrow> str \<Rightarrow> str" where
  "exec_command env_vars code =
     lit ''env '' @ env_str env_vars @ lit '' python -c '' @ [39] @ replace_quote code @ [39]"

text \<open>
  The result of \<^verbatim>\<open>container.exec_run(..., demux=True)\<close>: the exit code and the two
  streams, each \<^verbatim>\<open>None\<close> or bytes.
\<close>

record exec_result =
  exit_code :: int
  demux_output :: "bytes option \<times> bytes option"

text \<open>\<^verbatim>\<open>b.decode('utf-8') if b else ''\<close>.\<close>

definition decode_stream :: "bytes option \<Rightarrow> exn + str" where
  "decode_stream b =
     (case b of
        None \<Rightarrow> Inr []
      | Some bs \<Rightarrow>
          if bs = [] then Inr []
          else (case utf8_decode (map unat bs) of
                  None \<Rightarrow> Inl UnicodeDecodeError
                | Some s \<Rightarrow> Inr s))"

text \<open>Lines 219 to 254: the value returned for an exit code and the two decoded streams.\<close>

definition classify :: "int \<Rightarrow> str \<Rightarrow> str \<Rightarrow> str" where
  "classify code stdout_text stderr_text =
     (if code \<noteq> 0 then
        lit ''Error (exit code '' @ str_int code @ lit ''): '' @ stderr_text
      else if stdout_text \<noteq> [] then stdout_text
      else if stderr_text \<noteq> [] then lit ''Error: '' @ stderr_text
      else lit ''No output'')"

text \<open>The fields of an \<^verbatim>\<open>AICodeSandbox\<close> that the methods read and write.\<close>

record sandbox =
  container :: "container option"
  temp_image :: "nat option"

text \<open>
  \<^verbatim>\<open>run_code\<close>. \<open>dedent\<close> is \<^verbatim>\<open>textwrap.dedent\<close>; \<open>exec_run\<close> is what the
  container answers to the command it is given (an exception when the exec cannot be
  dispatched). The previews written to stderr are left out.
\<close>

definition run_code ::
  "(str \<Rightarrow> str) \<Rightarrow> (str list \<Rightarrow> exn + exec_result) \<Rightarrow> sandbox \<Rightarrow> (str \<times> str) list \<Rightarrow> str
     \<Rightarrow> exn + str" where
  "run_code dedent exec_run sb env_vars code =
     (case container sb of
        None \<Rightarrow> Inl AttributeError
      | Some c \<Rightarrow>
          (case exec_run [lit ''sh'', lit ''-c'', exec_command env_vars (dedent code)] of
             Inl e \<Rightarrow> Inl e
           | Inr r \<Rightarrow>
               (case decode_stream (fst (demux_output r)) of
                  Inl e \<Rightarrow> Inl e
                | Inr stdout_text \<Rightarrow>
                    (case decode_stream (snd (demux_output r)) of
                       Inl e \<Rightarrow> Inl e
                     | Inr stderr_text \<Rightarrow>
                         Inr (classify (exit_code r) stdout_text stderr_text)))))"

text \<open>
  Lines 208 to 254 of \<^verbatim>\<open>run_code\<close>: what it makes of the answer of
  \<^verbatim>\<open>exec_run\<close>, the decoding of the two streams and the classification.
\<close>

definition answer :: "exn + exec_result \<Rightarrow> exn + str" where
  "answer x =
     (case x of
        Inl e \<Rightarrow> Inl e
      | Inr r \<Rightarrow>
          (case decode_stream (fst (demux_output r)) of
             Inl e \<Rightarrow> Inl e
           | Inr stdout_text \<Rightarrow>
               (case decode_stream (snd (demux_output r)) of
                  Inl e \<Rightarrow> Inl e
                | Inr stderr_text \<Rightarrow> Inr (classify (exit_code r) stdout_text stderr_text))))"

section \<open>The shell that runs the command\<close>

text \<open>
  How \<^verbatim>\<open>sh -c\<close> splits a command line into the words of a simple command, for the
  part of the POSIX quoting rules that such a line can use: blanks separate words; inside
  single quotes every character stands for itself up to the next single quote; inside
  double quotes every character but \<^verbatim>\<open>"\<close>, \<^verbatim>\<open>$\<close>, the backquote and the backslash
  stands for itself; quoted and unquoted pieces that touch form one word. A line that
  needs anything else (an unquoted character outside \<open>sh_plain\<close>, an expansion, an
  unterminated quote) is outside the model: \<open>None\<close>.
\<close>

datatype quoting = Unquoted | Single | Double

definition sh_blank :: "nat \<Rightarrow> bool" where
  "sh_blank c = (c = 32 \<or> c = 9)"

definition sh_plain :: "nat \<Rightarrow> bool" where
  "sh_plain c = (alnum c \<or> c \<in> set (lit ''_@%+=:,./-''))"

definition word_of :: "str option \<Rightarrow> str" where
  "word_of cur = (case cur of None \<Rightarrow> [] | Some w \<Rightarrow> w)"

fun sh_words :: "quoting \<Rightarrow> str option \<Rightarrow> str \<Rightarrow> str list option" where
  "sh_words Unquoted cur [] = Some (case cur of None \<Rightarrow> [] | Some w \<Rightarrow> [w])"
| "sh_words Single cur [] = None"
| "sh_words Double cur [] = None"
| "sh_words Unquoted cur (c # cs) =
     (if sh_blank c then
        (case cur of
           None \<Rightarrow> sh_words Unquoted None cs
         | Some w \<Rightarrow> map_option ((#) w) (sh_words Unquoted None cs))
      else if c = 39 then sh_words Single (Some (word_of cur)) cs
      else if c = 34 then sh_words Double (Some (word_of cur)) cs
      else if sh_plain c then sh_words Unquoted (Some (word_of cur @ [c])) cs
      else None)"
| "sh_words Single cur (c # cs) =
     (if c = 39 then sh_words Unquoted cur cs
      else sh_words Single (Some (word_of cur @ [c])) cs)"
| "sh_words Double cur (c # cs) =
     (if c = 34 then sh_words Unquoted cur cs
      else if c = 36 \<or> c = 96 \<or> c = 92 then None
      else sh_words Double (Some (word_of cur @ [c])) cs)"

definition sh_c :: "str \<Rightarrow> str list option" where
  "sh_c cmd = sh_words Unquoted None cmd"

text \<open>
  The \<^verbatim>\<open>env\<close> utility: the leading \<^verbatim>\<open>name=value\<close> operands are put in the
  environment, the rest is the utility to run and its arguments.
\<close>

fun split_eq :: "str \<Rightarrow> str \<times> str" where
  "split_eq [] = ([], [])"
| "split_eq (c # cs) = (if c = 61 then ([], cs) else (c # fst (split_eq cs), snd (split_eq cs)))"

fun env_utility :: "str list \<Rightarrow> (str \<times> str) list \<times> str list" where
  "env_utility [] = ([], [])"
| "env_utility (a # as) =
     (if 61 \<in> set a then (split_eq a # fst (env_utility as), snd (env_utility as))
      else ([], a # as))"

text \<open>
  What the container does with \<^verbatim>\<open>["sh", "-c", cmd]\<close> when the shell splits
  \<open>cmd\<close> into an \<^verbatim>\<open>env ... python -c code\<close> command: \<open>python vars code\<close> is
  what the interpreter does with the code under the added environment variables. What it
  does with any other command is \<open>other\<close>.
\<close>

definition sh_exec ::
  "((str \<times> str) list \<Rightarrow> str \<Rightarrow> exn + exec_result) \<Rightarrow> (str list \<Rightarrow> exn + exec_result)
     \<Rightarrow> str list \<Rightarrow> exn + exec_result" where
  "sh_exec python other argv =
     (case argv of
        [a, b, cmd] \<Rightarrow>
          (if a = lit ''sh'' \<and> b = lit ''-c'' then
             (case sh_c cmd of
                Some (w # ws) \<Rightarrow>
                  (if w = lit ''env'' then
                     (case env_utility ws of
                        (vars, [p, c, code]) \<Rightarrow>
                          if p = lit ''python'' \<and> c = lit ''-c'' then python vars code
                          else other argv
                      | _ \<Rightarrow> other argv)
                   else other argv)
              | _ \<Rightarrow> other argv)
           else other argv)
      | _ \<Rightarrow> other argv)"

text \<open>A name that \<^verbatim>\<open>env\<close> takes as a variable name: letters, digits and underscores, not starting with a digit.\<close>

definition env_name :: "str \<Rightarrow> bool" where
  "env_name k = (k \<noteq> [] \<and> list_all (\<lambda>c. alnum c \<or> c = 95) k \<and> \<not> (48 \<le> hd k \<and> hd k \<le> 57))"

section \<open>Sample values for run\_code\<close>

definition sample_sandbox :: sandbox where
  "sample_sandbox = \<lparr>container = Some \<lparr>cid = 0, cname = lit ''sandbox_persistent''\<rparr>, temp_image = None\<rparr>"

definition sample_code :: str where
  "sample_code = lit ''print('' @ [39] @ lit ''it'' @ [39, 39] @ lit ''s ok'' @ [39] @ lit '')''"

text \<open>
  What the interpreter does with the sample programs: \<^verbatim>\<open>print(1)\<close> prints
  \<^verbatim>\<open>1\<close>, and \<^verbatim>\<open>print('it''s ok')\<close>, whose two adjacent literals are one string,
  prints \<^verbatim>\<open>its ok\<close>. Any other program is taken to print nothing.
\<close>

definition sample_python :: "(str \<times> str) list \<Rightarrow> str \<Rightarrow> exn + exec_result" where
  "sample_python vars code =
     (if code = lit ''print(1)'' then
        Inr \<lparr>exit_code = 0, demux_output = (Some [0x31, 0x0A], None)\<rparr>
      else if code = sample_code then
        Inr \<lparr>exit_code = 0, demux_output = (Some [0x69, 0x74, 0x73, 0x20, 0x6F, 0x6B, 0x0A], None)\<rparr>
      else Inr \<lparr>exit_code = 0, demux_output = (None, None)\<rparr>)"

text \<open>
  What the container answers to the one command line of the samples that is no
  \<^verbatim>\<open>env ... python -c code\<close> command, \<^verbatim>\<open>env A B=1 python -c 'print(1)'\<close>:
  \<^verbatim>\<open>env\<close> finds no utility \<^verbatim>\<open>A\<close> and exits with 127.
\<close>

definition sample_other :: "str list \<Rightarrow> exn + exec_result" where
  "sample_other argv =
     Inr \<lparr>exit_code = 127,
          demux_output =
            (None, Some (map of_nat (lit ''env: '' @ [39] @ lit ''A'' @ [39]
                                     @ lit '': No such file or directory'' @ [10])))\<rparr>"

section \<open>sandbox.py: setup and close\<close>

definition persistent_name :: str where
  "persistent_name = lit ''sandbox_persistent''"

definition default_image :: str where
  "default_image = lit ''python:3.9-slim''"

definition default_packages :: "str list" where
  "default_packages =
     map lit [''requests'', ''numpy'', ''pandas'', ''matplotlib'', ''scipy'',
              ''beautifulsoup4'', ''fastapi'', ''pillow'', ''opencv-python'', ''regex'']"

text \<open>The arguments of \<^verbatim>\<open>AICodeSandbox(...)\<close>.\<close>

record setup_args =
  custom_image :: "str option"
  packages :: "str list option"
  network_mode :: str
  mem_limit :: str
  cpu_period :: int
  cpu_quota :: int

text \<open>
  What the runtime answers during one \<^verbatim>\<open>_setup_sandbox\<close>: whether
  \<^verbatim>\<open>containers.get\<close> raises an error other than \<^verbatim>\<open>NotFound\<close>, whether the first
  \<^verbatim>\<open>reload\<close> and \<^verbatim>\<open>start\<close> raise, the status that the \<open>i\<close>-th \<^verbatim>\<open>reload\<close> of
  the wait loop observes, whether the daemon accepts the removal in the handler, the image
  build and the \<^verbatim>\<open>run\<close>, and the uuid drawn.
\<close>

record setup_env =
  get_raises :: bool
  reload_raises :: bool
  start_raises :: bool
  polled :: "nat \<Rightarrow> status"
  recover_ok :: bool
  build_ok :: bool
  run_ok :: bool
  uuid_hex :: str

text \<open>
  The wait loop, \<^verbatim>\<open>for _ in range(10): reload(); if status == 'running': break; sleep(0.5)\<close>,
  from iteration \<open>i\<close> with \<open>n\<close> iterations left: the status the handle holds after it.
\<close>

fun poll_status :: "(nat \<Rightarrow> status) \<Rightarrow> nat \<Rightarrow> nat \<Rightarrow> status" where
  "poll_status obs i 0 = obs i"
| "poll_status obs i (Suc n) =
     (if obs i = Running \<or> n = 0 then obs i else poll_status obs (Suc i) n)"

text \<open>
  The \<^verbatim>\<open>try\<close> block of the default path: the persistent container is attached, is
  absent (\<^verbatim>\<open>NotFound\<close>), or an exception reached the \<^verbatim>\<open>except Exception\<close> handler,
  with \<^verbatim>\<open>self.container\<close> as it was set by then.
\<close>

datatype attach = Attached container | Absent | Broken "container option"

definition attach_persistent :: "setup_env \<Rightarrow> docker \<Rightarrow> attach \<times> docker" where
  "attach_persistent env w =
     (if get_raises env then (Broken None, w)
      else (case find_name persistent_name w of
              None \<Rightarrow> (Absent, w)
            | Some (c, st) \<Rightarrow>
                if reload_raises env then (Broken (Some c), w)
                else if st = Running then (Attached c, w)
                else if start_raises env then (Broken (Some c), emit (Start c) w)
                else if poll_status (polled env) 0 10 = Running then
                  (Attached c, emit (Start c) (set_status (cid c) Running w))
                else
                  (Broken (Some c),
                   emit (Start c) (set_status (cid c) (poll_status (polled env) 0 10) w))))"

text \<open>
  The handler: \<^verbatim>\<open>old = containers.get("sandbox_persistent"); old.remove(force=True)\<close>,
  with every exception swallowed.
\<close>

definition recover :: "setup_env \<Rightarrow> docker \<Rightarrow> docker" where
  "recover env w =
     (case find_name persistent_name w of
        None \<Rightarrow> w
      | Some (old, st) \<Rightarrow> snd (docker_remove (recover_ok env) old w))"

text \<open>
  Lines 84 to 106: the image build when \<^verbatim>\<open>packages\<close> is a non-empty list, the choice of
  the name, and the \<^verbatim>\<open>run\<close>. The result is the exception that leaves \<^verbatim>\<open>__init__\<close>,
  if any, with the fields of the object and the daemon as they are then.
\<close>

definition dockerfile :: "str \<Rightarrow> str list \<Rightarrow> str" where
  "dockerfile base pkgs =
     lit ''FROM '' @ base @ [10] @ lit ''RUN pip install '' @ join [32] pkgs"

definition is_default_setup :: "str option \<Rightarrow> str list option \<Rightarrow> bool" where
  "is_default_setup custom pkgs =
     (custom = None \<and> (case pkgs of None \<Rightarrow> False | Some ps \<Rightarrow> set ps = set default_packages))"

definition container_name :: "setup_env \<Rightarrow> str option \<Rightarrow> str list option \<Rightarrow> str" where
  "container_name env custom pkgs =
     (if is_default_setup custom pkgs then persistent_name
      else lit ''python_sandbox_'' @ take 8 (uuid_hex env))"

definition sandbox_run_args :: "setup_args \<Rightarrow> image_ref \<Rightarrow> str \<Rightarrow> run_args" where
  "sandbox_run_args a img n =
     \<lparr>r_image = img, r_name = n, r_command = lit ''tail -f /dev/null'',
      r_network_mode = network_mode a, r_dns = [lit ''8.8.8.8'', lit ''8.8.4.4''],
      r_mem_limit = mem_limit a, r_cpu_period = cpu_period a, r_cpu_quota = cpu_quota a,
      r_remove = False\<rparr>"

definition create_container ::
  "setup_env \<Rightarrow> setup_args \<Rightarrow> str list option \<Rightarrow> image_ref \<Rightarrow> sandbox \<Rightarrow> docker
     \<Rightarrow> exn option \<times> sandbox \<times> docker" where
  "create_container env a pkgs img sb w =
     (case docker_run (run_ok env)
             (sandbox_run_args a img (container_name env (custom_image a) pkgs)) w of
        (Inl e, w') \<Rightarrow> (Some e, sb, w')
      | (Inr c, w') \<Rightarrow> (None, sb\<lparr>container := Some c\<rparr>, w'))"

definition create_sandbox ::
  "setup_env \<Rightarrow> setup_args \<Rightarrow> str list option \<Rightarrow> sandbox \<Rightarrow> docker
     \<Rightarrow> exn option \<times> sandbox \<times> docker" where
  "create_sandbox env a pkgs sb w =
     (let base = (case custom_image a of
                     None \<Rightarrow> default_image
                   | Some i \<Rightarrow> if i = [] then default_image else i)
      in case pkgs of
           Some (p # ps) \<Rightarrow>
             (case docker_build (build_ok env) (dockerfile base (p # ps)) w of
                (Inl e, w') \<Rightarrow> (Some e, sb, w')
              | (Inr i, w') \<Rightarrow>
                  create_container env a pkgs (ImageId i) (sb\<lparr>temp_image := Some i\<rparr>) w')
         | _ \<Rightarrow> create_container env a pkgs (Tag base) sb w)"

text \<open>\<^verbatim>\<open>__init__\<close> with \<^verbatim>\<open>_setup_sandbox\<close>.\<close>

definition setup_sandbox ::
  "setup_env \<Rightarrow> setup_args \<Rightarrow> docker \<Rightarrow> exn option \<times> sandbox \<times> docker" where
  "setup_sandbox env a w =
     (if custom_image a = None \<and> packages a = None then
        (case attach_persistent env w of
           (Attached c, w') \<Rightarrow> (None, \<lparr>container = Some c, temp_image = None\<rparr>, w')
         | (Absent, w') \<Rightarrow>
             create_sandbox env a (Some default_packages)
               \<lparr>container = None, temp_image = None\<rparr> w'
         | (Broken held, w') \<Rightarrow>
             create_sandbox env a (Some default_packages)
               \<lparr>container = held, temp_image = None\<rparr> (recover env w'))
      else create_sandbox env a (packages a) \<lparr>container = None, temp_image = None\<rparr> w)"

text \<open>
  What the runtime answers during one \<^verbatim>\<open>close\<close>: whether the daemon accepts the stop
  and the removal, and the \<open>i\<close>-th attempt to remove the image.
\<close>

record close_env =
  stop_ok :: bool
  remove_ok :: bool
  image_remove_ok :: "nat \<Rightarrow> bool"

text \<open>Lines 262 to 270. A failing \<^verbatim>\<open>stop\<close> skips the \<^verbatim>\<open>remove\<close>; both are only printed.\<close>

definition close_container :: "close_env \<Rightarrow> sandbox \<Rightarrow> docker \<Rightarrow> sandbox \<times> docker" where
  "close_container env sb w =
     (case container sb of
        None \<Rightarrow> (sb, w)
      | Some c \<Rightarrow>
          (sb\<lparr>container := None\<rparr>,
           if cname c \<noteq> persistent_name then
             (case docker_stop (stop_ok env) c w of
                (Some e, w') \<Rightarrow> w'
              | (None, w') \<Rightarrow> snd (docker_remove (remove_ok env) c w'))
           else w))"

text \<open>The loop of lines 274 to 282, from attempt \<open>i\<close> with \<open>n\<close> attempts left.\<close>

fun remove_image_attempts :: "(nat \<Rightarrow> bool) \<Rightarrow> nat \<Rightarrow> nat \<Rightarrow> nat \<Rightarrow> docker \<Rightarrow> docker" where
  "remove_image_attempts oks img i 0 w = w"
| "remove_image_attempts oks img i (Suc n) w =
     (case docker_image_remove (oks i) img w of
        (None, w') \<Rightarrow> w'
      | (Some e, w') \<Rightarrow> remove_image_attempts oks img (Suc i) n w')"

definition close :: "close_env \<Rightarrow> sandbox \<Rightarrow> docker \<Rightarrow> sandbox \<times> docker" where
  "close env sb w =
     (case close_container env sb w of
        (sb', w') \<Rightarrow>
          (case temp_image sb' of
             None \<Rightarrow> (sb', w')
           | Some img \<Rightarrow>
               (sb'\<lparr>temp_image := None\<rparr>,
                remove_image_attempts (image_remove_ok env) img 0 3 w')))"

text \<open>
  A run of the Sandbox layer: sandboxes are set up and closed in any order. A sandbox
  whose \<^verbatim>\<open>__init__\<close> raised is discarded, and \<^verbatim>\<open>__del__\<close> closes it.
\<close>

datatype op = Setup setup_env setup_args close_env | Close nat close_env

record system =
  world :: docker
  boxes :: "sandbox list"

fun step :: "op \<Rightarrow> system \<Rightarrow> system" where
  "step (Setup env a cenv) s =
     (case setup_sandbox env a (world s) of
        (None, sb, w) \<Rightarrow> s\<lparr>world := w, boxes := boxes s @ [sb]\<rparr>
      | (Some e, sb, w) \<Rightarrow> s\<lparr>world := snd (close cenv sb w)\<rparr>)"
| "step (Close i cenv) s =
     (if i < length (boxes s) then
        (case close cenv (boxes s ! i) (world s) of
           (sb, w) \<Rightarrow> s\<lparr>world := w, boxes := (boxes s)[i := sb]\<rparr>)
      else s)"

definition run_ops :: "op list \<Rightarrow> system \<Rightarrow> system" where
  "run_ops ops s = fold step ops s"

text \<open>A stop or a removal of a container that has the persistent name.\<close>

fun touches_persistent :: "event \<Rightarrow> bool" where
  "touches_persistent (Stop c) = (cname c = persistent_name)"
| "touches_persistent (Remove c) = (cname c = persistent_name)"
| "touches_persistent e = False"

definition untouched :: "docker \<Rightarrow> bool" where
  "untouched w = (\<not> list_ex touches_persistent (log w))"

text \<open>A setup in which no call on the existing persistent container fails.\<close>

fun attach_succeeds :: "op \<Rightarrow> bool" where
  "attach_succeeds (Setup env a cenv) =
     (\<not> get_raises env \<and> \<not> reload_raises env \<and> \<not> start_raises env
      \<and> poll_status (polled env) 0 10 = Running)"
| "attach_succeeds (Close i cenv) = True"




section \<open>Sample values for setup and close\<close>

definition default_args :: setup_args where
  "default_args =
     \<lparr>custom_image = None, packages = None, network_mode = lit ''bridge'',
      mem_limit = lit ''512m'', cpu_period = 100000, cpu_quota = 50000\<rparr>"

text \<open>A runtime in which every call succeeds, and one in which a started container never runs.\<close>

definition quiet_env :: setup_env where
  "quiet_env =
     \<lparr>get_raises = False, reload_raises = False, start_raises = False,
      polled = (\<lambda>i. Running), recover_ok = True, build_ok = True, run_ok = True,
      uuid_hex = lit ''c0ffee00c0ffee00c0ffee00c0ffee00''\<rparr>"

definition stuck_env :: setup_env where
  "stuck_env = quiet_env\<lparr>polled := (\<lambda>i. Exited)\<rparr>"

definition close_ok :: close_env where
  "close_ok = \<lparr>stop_ok = True, remove_ok = True, image_remove_ok = (\<lambda>i. True)\<rparr>"

text \<open>A daemon that has the persistent container, running or exited.\<close>

definition persistent_daemon :: "status \<Rightarrow> docker" where
  "persistent_daemon st =
     \<lparr>conts = [(\<lparr>cid = 0, cname = persistent_name\<rparr>, st)], images = [], next_id = 1, log = []\<rparr>"

text \<open>A sandbox that owns an ephemeral container and a built image, and the daemon that has them.\<close>

definition ephemeral_box :: sandbox where
  "ephemeral_box = \<lparr>container = Some \<lparr>cid = 2, cname = lit ''python_sandbox_c0ffee00''\<rparr>, temp_image = Some 1\<rparr>"

definition ephemeral_daemon :: docker where
  "ephemeral_daemon =
     \<lparr>conts = [(\<lparr>cid = 0, cname = persistent_name\<rparr>, Running),
               (\<lparr>cid = 2, cname = lit ''python_sandbox_c0ffee00''\<rparr>, Running)],
      images = [1], next_id = 3, log = []\<rparr>"



section \<open>persistent\_worker.py\<close>

text \<open>
  \<^verbatim>\<open>str.isspace\<close> on one code point, and \<^verbatim>\<open>str.strip()\<close>.
\<close>

definition isspace :: "nat \<Rightarrow> bool" where
  "isspace c =
     ((9 \<le> c \<and> c \<le> 13) \<or> (28 \<le> c \<and> c \<le> 32) \<or> c = 133 \<or> c = 160 \<or> c = 5760
      \<or> (8192 \<le> c \<and> c \<le> 8202) \<or> c = 8232 \<or> c = 8233 \<or> c = 8239 \<or> c = 8287
      \<or> c = 12288)"

definition strip :: "str \<Rightarrow> str" where
  "strip s = rev (dropWhile isspace (rev (dropWhile isspace s)))"

text \<open>
  A value that \<^verbatim>\<open>json.loads\<close> returns. A float is kept as its \<^verbatim>\<open>repr\<close>; an
  object is its items in the order of the text, and a repeated key means its last value.
\<close>

datatype json =
    JNull
  | JBool bool
  | JInt int
  | JFloat str
  | JStr str
  | JArr "json list"
  | JObj "(str \<times> json) list"

definition dict_get :: "(str \<times> json) list \<Rightarrow> str \<Rightarrow> json option" where
  "dict_get kvs k = map_of (rev kvs) k"

text \<open>Python's truth value of a JSON value.\<close>

fun truthy :: "json \<Rightarrow> bool" where
  "truthy JNull = False"
| "truthy (JBool b) = b"
| "truthy (JInt i) = (i \<noteq> 0)"
| "truthy (JFloat r) = (r \<noteq> lit ''0.0'' \<and> r \<noteq> lit ''-0.0'')"
| "truthy (JStr s) = (s \<noteq> [])"
| "truthy (JArr xs) = (xs \<noteq> [])"
| "truthy (JObj kvs) = (kvs \<noteq> [])"

text \<open>What \<^verbatim>\<open>json.loads\<close> does with a line: a value, a \<^verbatim>\<open>JSONDecodeError\<close>, or another exception.\<close>

datatype loads_result = Parsed json | JSONDecodeError str | LoadsError str

text \<open>
  A response dict: each key is there (\<open>Some\<close>) or not. \<^verbatim>\<open>timings\<close> is kept as the
  list of its stage names; the milliseconds are not modelled. \<^verbatim>\<open>json.dumps\<close> escapes
  every line break, so one response printed is one line of output.
\<close>

record response =
  resp_id :: "json option"
  resp_success :: bool
  resp_result :: "str option"
  resp_error :: "str option"
  resp_traceback :: "str option"
  resp_stdout :: "str option"
  resp_stderr :: "str option"
  resp_timings :: "str list option"


text \<open>\<^verbatim>\<open>{"id": request_id, "success": False, "error": msg, "timings": timings}\<close>.\<close>

definition failure :: "json \<Rightarrow> str \<Rightarrow> str list \<Rightarrow> response" where
  "failure request_id msg stages =
     \<lparr>resp_id = Some request_id, resp_success = False, resp_result = None,
      resp_error = Some msg, resp_traceback = None, resp_stdout = None, resp_stderr = None,
      resp_timings = Some stages\<rparr>"

text \<open>\<^verbatim>\<open>{"id": request_id, "success": True, "result": out, "timings": timings}\<close>.\<close>

definition success :: "json \<Rightarrow> str \<Rightarrow> str list \<Rightarrow> response" where
  "success request_id out stages =
     \<lparr>resp_id = Some request_id, resp_success = True, resp_result = Some out,
      resp_error = None, resp_traceback = None, resp_stdout = None, resp_stderr = None,
      resp_timings = Some stages\<rparr>"

text \<open>
  A line on the worker's stdout: a response, printed by \<^verbatim>\<open>main\<close> as
  \<^verbatim>\<open>json.dumps(response)\<close>, or a line of text that something else printed there.
\<close>

datatype out_line = Printed str | Reply response

definition replies :: "out_line list \<Rightarrow> response list" where
  "replies out = concat (map (\<lambda>l. case l of Reply r \<Rightarrow> [r] | Printed t \<Rightarrow> []) out)"

text \<open>
  \<^verbatim>\<open>bytes.decode('utf-8', errors='surrogateescape')\<close>: a byte that starts no
  well-formed sequence becomes the lone surrogate U+DC00 plus the byte.
\<close>

function utf8_decode_escape :: "nat list \<Rightarrow> str" where
  "utf8_decode_escape bs =
     (if bs = [] then []
      else (case utf8_head bs of
              None \<Rightarrow> (0xDC00 + hd bs) # utf8_decode_escape (tl bs)
            | Some (c, r) \<Rightarrow> c # utf8_decode_escape r))"
  by pat_completeness auto
termination
  by (relation "measure length") (auto simp: neq_Nil_conv split: if_splits list.splits)

text \<open>
  How \<^verbatim>\<open>sys.stdin\<close> turns the bytes of a line into a \<^verbatim>\<open>str\<close>. The encoding is
  taken to be UTF-8; the error handler is the one of the environment, \<^verbatim>\<open>strict\<close>
  or \<^verbatim>\<open>surrogateescape\<close>. \<open>None\<close> is the \<^verbatim>\<open>UnicodeDecodeError\<close> that
  \<^verbatim>\<open>for line in sys.stdin\<close> raises.
\<close>

datatype errors = Strict | Surrogateescape

definition decode_stdin :: "errors \<Rightarrow> bytes \<Rightarrow> str option" where
  "decode_stdin h bs =
     (case h of
        Strict \<Rightarrow> utf8_decode (map unat bs)
      | Surrogateescape \<Rightarrow> Some (utf8_decode_escape (map unat bs)))"

text \<open>
  What a shell command does when it is run: it ends after \<open>duration\<close> milliseconds
  (\<open>None\<close>: it never ends) with its two streams and its return code; \<open>b_partial\<close> is
  what a \<^verbatim>\<open>TimeoutExpired\<close> would carry as \<^verbatim>\<open>stdout\<close> (nothing, text or bytes);
  \<open>b_error\<close> is the message of any other exception that \<^verbatim>\<open>subprocess.run\<close> raises
  (with \<^verbatim>\<open>text=True\<close>, a \<^verbatim>\<open>UnicodeDecodeError\<close> on output that does not decode);
  \<open>b_forked\<close> says whether the shell runs the command as a child process of its own
  rather than in its place.
\<close>

datatype captured = NoCapture | CapStr str | CapBytes bytes

record behaviour =
  duration :: "nat option"
  b_stdout :: str
  b_stderr :: str
  b_returncode :: int
  b_partial :: captured
  b_error :: "str option"
  b_forked :: bool

datatype run_outcome = CompletedProcess str str int | TimeoutExpired captured | OtherError str

text \<open>
  \<^verbatim>\<open>subprocess.run(code, shell=True, capture_output=True, text=True, timeout=t)\<close>, with
  \<open>t\<close> in seconds. At the deadline \<^verbatim>\<open>subprocess.run\<close> kills the process it started,
  which is the shell, and raises \<^verbatim>\<open>TimeoutExpired\<close>; a command that the shell runs
  as its child is not signalled. The second component says whether the command is still
  running when the call is over.
\<close>

definition subprocess_run :: "nat \<Rightarrow> behaviour \<Rightarrow> run_outcome \<times> bool" where
  "subprocess_run t b =
     (case b_error b of
        Some m \<Rightarrow> (OtherError m, False)
      | None \<Rightarrow>
          (case duration b of
             None \<Rightarrow> (TimeoutExpired (b_partial b), b_forked b)
           | Some d \<Rightarrow>
               if d \<le> t * 1000 then
                 (CompletedProcess (b_stdout b) (b_stderr b) (b_returncode b), False)
               else (TimeoutExpired (b_partial b), b_forked b)))"

text \<open>Lines 28 to 32 of \<^verbatim>\<open>execute_bash\<close>: the text of \<^verbatim>\<open>e.stdout\<close>.\<close>

definition timeout_stdout :: "captured \<Rightarrow> str" where
  "timeout_stdout cap =
     (case cap of
        NoCapture \<Rightarrow> []
      | CapStr s \<Rightarrow> s
      | CapBytes bs \<Rightarrow> if bs = [] then [] else utf8_decode_ignore (map unat bs))"

text \<open>
  \<^verbatim>\<open>execute_bash\<close>: the triple it returns, and whether the command is still running
  then. The handler of \<^verbatim>\<open>TimeoutExpired\<close> kills nothing itself.
\<close>

definition execute_bash :: "behaviour \<Rightarrow> (str \<times> str \<times> int) \<times> bool" where
  "execute_bash b =
     (case subprocess_run 30 b of
        (CompletedProcess out err rc, left) \<Rightarrow> ((out, err, rc), left)
      | (TimeoutExpired cap, left) \<Rightarrow>
          ((timeout_stdout cap, lit ''Bash execution timed out (30s)'', 124), left)
      | (OtherError m, left) \<Rightarrow> (([], m, 1), left))"

text \<open>
  The collaborators of the worker, over a state \<open>'w\<close> that they may change: the error
  handler of stdin; \<^verbatim>\<open>json.loads\<close>; what a shell command does; the import of
  \<^verbatim>\<open>ai_code_sandbox\<close> (the message of the exception, if it fails);
  \<^verbatim>\<open>AICodeSandbox(packages=...)\<close>, \<^verbatim>\<open>run_code\<close> and \<^verbatim>\<open>close\<close>. A raised
  exception is its \<^verbatim>\<open>str(e)\<close> and its formatted traceback. \<^verbatim>\<open>close\<close> is called
  under a bare \<^verbatim>\<open>except\<close>. \<^verbatim>\<open>AICodeSandbox.close\<close> reports its failures with
  \<^verbatim>\<open>print\<close> and no \<^verbatim>\<open>file\<close> argument, so on stdout: the constructor (whose
  object \<^verbatim>\<open>__del__\<close> closes when it raised) and \<^verbatim>\<open>close\<close> come with the lines
  they printed there.
\<close>

record ('w, 'sb) worker_env =
  stdin_errors :: errors
  loads :: "str \<Rightarrow> loads_result"
  shell :: "'w \<Rightarrow> str \<Rightarrow> behaviour \<times> 'w"
  import_sandbox :: "'w \<Rightarrow> str option"
  new_sandbox :: "'w \<Rightarrow> json option \<Rightarrow> ((str \<times> str) + 'sb) \<times> str list \<times> 'w"
  sb_run_code :: "'w \<Rightarrow> 'sb \<Rightarrow> str \<Rightarrow> ((str \<times> str) + str) \<times> 'w"
  sb_close :: "'w \<Rightarrow> 'sb \<Rightarrow> str list \<times> 'w"

text \<open>
  The state that the worker runs in: that of the collaborators, and the shell commands
  that it has left running.
\<close>

record 'w worker_state =
  outside :: 'w
  orphans :: "str list"

text \<open>The bash branch of \<^verbatim>\<open>process_request\<close>.\<close>

definition bash_response :: "json \<Rightarrow> str \<times> str \<times> int \<Rightarrow> response" where
  "bash_response request_id r =
     (case r of
        (out, err, returncode) \<Rightarrow>
          if returncode \<noteq> 0 then
            (failure request_id
               (if err \<noteq> [] then err else lit ''Bash exited with code '' @ str_int returncode)
               [lit ''code_exec_ms'', lit ''total_ms''])
              \<lparr>resp_stdout := Some out, resp_stderr := Some err\<rparr>
          else success request_id out [lit ''code_exec_ms'', lit ''total_ms''])"

text \<open>
  The Python branch: the import is attempted on every request (the name is never among
  the locals that \<^verbatim>\<open>dir()\<close> lists), the sandbox is constructed, the code is run, and
  the sandbox, if constructed, is closed whatever happened. The result is the response,
  the lines printed on stdout meanwhile, and the state of the collaborators.
\<close>

definition python_response ::
  "('w, 'sb) worker_env \<Rightarrow> json \<Rightarrow> json option \<Rightarrow> str \<Rightarrow> 'w \<Rightarrow> response \<times> str list \<times> 'w" where
  "python_response env request_id pkgs code w =
     (case import_sandbox env w of
        Some m \<Rightarrow> (failure request_id (lit ''failed to import: '' @ m) [], [], w)
      | None \<Rightarrow>
          (case new_sandbox env w pkgs of
             (Inl (msg, tb), printed, w1) \<Rightarrow>
               ((failure request_id msg [lit ''import_ms'', lit ''total_ms''])
                  \<lparr>resp_traceback := Some tb\<rparr>, printed, w1)
           | (Inr sb, printed, w1) \<Rightarrow>
               (case sb_run_code env w1 sb code of
                  (Inl (msg, tb), w2) \<Rightarrow>
                    ((failure request_id msg
                        [lit ''import_ms'', lit ''sandbox_init_ms'', lit ''total_ms''])
                       \<lparr>resp_traceback := Some tb\<rparr>,
                     printed @ fst (sb_close env w2 sb), snd (sb_close env w2 sb))
                | (Inr out, w2) \<Rightarrow>
                    (success request_id out
                       [lit ''import_ms'', lit ''sandbox_init_ms'', lit ''code_exec_ms'',
                        lit ''total_ms''],
                     printed @ fst (sb_close env w2 sb), snd (sb_close env w2 sb)))))"

text \<open>
  The message of the \<^verbatim>\<open>UnboundLocalError\<close> that the last handler of
  \<^verbatim>\<open>process_request\<close> raises when it formats \<^verbatim>\<open>request_id\<close> before the variable
  was assigned (the wording of Python 3.11 and later).
\<close>

definition unbound_request_id :: str where
  "unbound_request_id =
     lit ''cannot access local variable '' @ [39] @ lit ''request_id'' @ [39]
     @ lit '' where it is not associated with a value''"

text \<open>
  \<^verbatim>\<open>process_request\<close>: what it returns or raises (\<open>Inl\<close>), the lines printed on
  stdout while it ran, and the state after it. A request that is not a dict has no
  \<^verbatim>\<open>get\<close>: the \<^verbatim>\<open>AttributeError\<close> is caught by the last handler, which raises in
  turn.
\<close>

definition process_request ::
  "('w, 'sb) worker_env \<Rightarrow> json \<Rightarrow> 'w worker_state
     \<Rightarrow> (str + response) \<times> str list \<times> 'w worker_state" where
  "process_request env request_data s =
     (case request_data of
        JObj kvs \<Rightarrow>
          (let code = dict_get kvs (lit ''code'');
               language = (case dict_get kvs (lit ''language'') of
                             None \<Rightarrow> JStr (lit ''python'') | Some l \<Rightarrow> l);
               pkgs = (case dict_get kvs (lit ''packages'') of
                         None \<Rightarrow> None | Some p \<Rightarrow> if truthy p then Some p else None);
               request_id = (case dict_get kvs (lit ''id'') of
                               None \<Rightarrow> JStr (lit ''unknown'') | Some i \<Rightarrow> i)
           in case code of
                Some (JStr c) \<Rightarrow>
                  if strip c = [] then
                    (Inr (failure request_id (lit ''missing or empty code'') []), [], s)
                  else if language = JStr (lit ''bash'') then
                    (case shell env (outside s) c of
                       (b, w') \<Rightarrow>
                         (Inr (bash_response request_id (fst (execute_bash b))), [],
                          \<lparr>outside = w',
                           orphans = orphans s @ (if snd (execute_bash b) then [c] else [])\<rparr>))
                  else
                    (case python_response env request_id pkgs c (outside s) of
                       (r, printed, w') \<Rightarrow> (Inr r, printed, s\<lparr>outside := w'\<rparr>))
              | _ \<Rightarrow> (Inr (failure request_id (lit ''missing or empty code'') []), [], s))
      | _ \<Rightarrow> (Inl unbound_request_id, [], s))"





definition decodes :: "('w, 'sb) worker_env \<Rightarrow> bytes \<Rightarrow> bool" where
  "decodes env raw = (decode_stdin (stdin_errors env) raw \<noteq> None)"




definition id_of :: "(str \<times> json) list \<Rightarrow> json" where
  "id_of kvs = (case dict_get kvs (lit ''id'') of None \<Rightarrow> JStr (lit ''unknown'') | Some i \<Rightarrow> i)"

section \<open>Sample values for the worker\<close>



















chapter \<open>Verified properties\<close>

section \<open>The pool\<close>

lemma acquire_free:
  assumes "clock (Suc k) - clock k < t" and "find (\<lambda>c. cid c \<notin> in_use p) (containers p) = Some c"
  shows "acquire clock t k p = Some (Inr c, p\<lparr>in_use := insert (cid c) (in_use p)\<rparr>, Suc k)"
  using assms by (simp add: acquire_def acquire_loop.simps)

lemma acquire_elapsed:
  assumes "\<not> clock (Suc k) - clock k < t"
  shows "acquire clock t k p =
           Some (Inl (RuntimeError (lit ''No containers available in pool'')), p, Suc k)"
  using assms by (simp add: acquire_def acquire_loop.simps)

lemma acquire_loop_exhausted:
  assumes "find (\<lambda>c. cid c \<notin> in_use p) (containers p) = None"
    and "\<forall>j\<ge>k. clock j + 1 / 10 \<le> clock (Suc j)"
  shows "\<exists>k'. acquire_loop clock start t k p =
             Some (Inl (RuntimeError (lit ''No containers available in pool'')), p, k')
           \<and> k \<le> k' \<and> t \<le> clock k' - start \<and> (\<forall>j. k \<le> j \<and> j < k' \<longrightarrow> clock j - start < t)"
  using assms(2)
proof (induction "nat \<lceil>(t - (clock k - start)) * 10\<rceil>" arbitrary: k rule: less_induct)
  case less
  show ?case
  proof (cases "clock k - start < t")
    case False
    then show ?thesis by (subst acquire_loop.simps) auto
  next
    case True
    have step: "clock k + 1 / 10 \<le> clock (Suc k)" using less.prems by simp
    have "(t - (clock (Suc k) - start)) * 10 \<le> (t - (clock k - start)) * 10 - 1"
      using step by simp
    then have "\<lceil>(t - (clock (Suc k) - start)) * 10\<rceil> \<le> \<lceil>(t - (clock k - start)) * 10\<rceil> - 1"
      by (metis ceiling_diff_one ceiling_mono)
    moreover have "0 < \<lceil>(t - (clock k - start)) * 10\<rceil>" using True by simp
    ultimately have m: "nat \<lceil>(t - (clock (Suc k) - start)) * 10\<rceil> < nat \<lceil>(t - (clock k - start)) * 10\<rceil>"
      by linarith
    have later: "\<forall>j\<ge>Suc k. clock j + 1 / 10 \<le> clock (Suc j)" using less.prems by simp
    from less.hyps[OF m later] obtain k' where k':
      "acquire_loop clock start t (Suc k) p =
         Some (Inl (RuntimeError (lit ''No containers available in pool'')), p, k')"
      "Suc k \<le> k'" "t \<le> clock k' - start" "\<forall>j. Suc k \<le> j \<and> j < k' \<longrightarrow> clock j - start < t"
      by blast
    have all: "\<forall>j. k \<le> j \<and> j < k' \<longrightarrow> clock j - start < t"
    proof (intro allI impI)
      fix j assume j: "k \<le> j \<and> j < k'"
      show "clock j - start < t"
      proof (cases "j = k")
        case True
        then show ?thesis using \<open>clock k - start < t\<close> by simp
      next
        case False
        with j have "Suc k \<le> j \<and> j < k'" by simp
        with k'(4) show ?thesis by blast
      qed
    qed
    have "acquire_loop clock start t k p =
         Some (Inl (RuntimeError (lit ''No containers available in pool'')), p, k')"
      by (subst acquire_loop.simps) (simp add: True assms(1) k'(1))
    with k'(2,3) all show ?thesis by (intro exI[of _ k']) simp
  qed
qed

lemma find_skip_prefix: "\<forall>x\<in>set xs. \<not> P x \<Longrightarrow> find P (xs @ zs) = find P zs"
  by (induction xs) auto

lemma find_fresh_append:
  assumes "distinct (map cid (xs @ y # ys))"
  shows "find (\<lambda>c. cid c \<notin> cid ` set xs) (xs @ y # ys) = Some y"
proof -
  have "cid y \<notin> cid ` set xs" using assms by auto
  then show ?thesis by (simp add: find_skip_prefix)
qed

lemma find_all_used: "find (\<lambda>c. cid c \<notin> cid ` set cs) cs = None"
  by (simp add: find_None_iff)

lemma acquire_many_rest:
  assumes "containers p = xs @ ys" and "in_use p = cid ` set xs"
    and "distinct (map cid (xs @ ys))"
    and "\<forall>i<length ys. clock (k + 2 * i + 1) - clock (k + 2 * i) < t"
  shows "acquire_many clock (length ys) t k p =
           Some (map Inr ys, p\<lparr>in_use := cid ` set (xs @ ys)\<rparr>, k + 2 * length ys)"
  using assms
proof (induction ys arbitrary: xs p k)
  case Nil
  then show ?case by simp
next
  case (Cons y ys)
  have f: "find (\<lambda>c. cid c \<notin> in_use p) (containers p) = Some y"
    using Cons.prems find_fresh_append[of xs y ys] by simp
  have g: "clock (Suc k) - clock k < t" using Cons.prems(4) by force
  let ?p = "p\<lparr>in_use := insert (cid y) (in_use p)\<rparr>"
  have a: "acquire clock t k p = Some (Inr y, ?p, Suc k)"
    using acquire_free[OF g f] .
  have later: "\<forall>i<length ys. clock (Suc (Suc k) + 2 * i + 1) - clock (Suc (Suc k) + 2 * i) < t"
  proof (intro allI impI)
    fix i assume "i < length ys"
    then have "Suc i < length (y # ys)" by simp
    with Cons.prems(4) have "clock (k + 2 * Suc i + 1) - clock (k + 2 * Suc i) < t" by blast
    then show "clock (Suc (Suc k) + 2 * i + 1) - clock (Suc (Suc k) + 2 * i) < t" by simp
  qed
  have "acquire_many clock (length ys) t (Suc (Suc k)) ?p =
          Some (map Inr ys, ?p\<lparr>in_use := cid ` set ((xs @ [y]) @ ys)\<rparr>, Suc (Suc k) + 2 * length ys)"
    by (rule Cons.IH) (use Cons.prems later in auto)
  then show ?case using a by simp
qed

lemma init_step_inv:
  assumes "init_step us os i (p, w) = (p', w')"
    and "\<forall>c\<in>set (containers p). cid c < next_id w"
    and "distinct (map cid (containers p))"
  shows "(\<forall>c\<in>set (containers p'). cid c < next_id w') \<and> distinct (map cid (containers p'))
         \<and> in_use p' = in_use p \<and> pool_size p' = pool_size p \<and> image_name p' = image_name p"
  using assms
  by (fastforce simp: init_step_def docker_run_def emit_def less_Suc_eq split: if_splits)

lemma fold_init_step_inv:
  assumes "fold (init_step us os) is (p, w) = (p', w')"
    and "\<forall>c\<in>set (containers p). cid c < next_id w"
    and "distinct (map cid (containers p))"
  shows "(\<forall>c\<in>set (containers p'). cid c < next_id w') \<and> distinct (map cid (containers p'))
         \<and> in_use p' = in_use p \<and> pool_size p' = pool_size p \<and> image_name p' = image_name p"
  using assms
proof (induction "is" arbitrary: p w)
  case Nil
  then show ?case by simp
next
  case (Cons i "is")
  obtain p1 w1 where s: "init_step us os i (p, w) = (p1, w1)" by (cases "init_step us os i (p, w)")
  from init_step_inv[OF s Cons.prems(2,3)] Cons.IH[of p1 w1] Cons.prems(1) s
  show ?case by simp
qed

lemma ContainerPool_inv:
  assumes "ContainerPool env a img w = (Inr p, w')"
  shows "distinct (map cid (containers p)) \<and> in_use p = {} \<and> a = IntArg (pool_size p)
         \<and> image_name p = img \<and> client_ok env"
proof -
  from assms obtain n where a: "a = IntArg n" and c: "client_ok env"
    and i: "init_pool (pool_uuids env) (pool_oks env)
              \<lparr>pool_size = n, image_name = img, containers = [], in_use = {}\<rparr> w = (p, w')"
    by (auto simp: ContainerPool_def split: if_splits size_arg.splits prod.splits)
  from fold_init_step_inv[of "pool_uuids env" "pool_oks env" "[0..<nat n]"
      "\<lparr>pool_size = n, image_name = img, containers = [], in_use = {}\<rparr>" w p w'] i
  show ?thesis using a c by (simp add: init_pool_def)
qed

lemma ContainerPool_raises:
  assumes "ContainerPool env a img w = (Inl e, w')"
  shows "w' = w \<and> (\<not> client_ok env \<or> a = OtherArg)"
  using assms by (auto simp: ContainerPool_def split: if_splits size_arg.splits prod.splits)

lemma sample_pool2:
  "ContainerPool pool_ok (IntArg 2) (lit ''python:3.9-slim'') empty_daemon =
     (Inr \<lparr>pool_size = 2, image_name = lit ''python:3.9-slim'',
           containers = [\<lparr>cid = 0, cname = lit ''sandbox_pool_c0ffee00''\<rparr>,
                         \<lparr>cid = 1, cname = lit ''sandbox_pool_c0ffee01''\<rparr>],
           in_use = {}\<rparr>,
      snd (ContainerPool pool_ok (IntArg 2) (lit ''python:3.9-slim'') empty_daemon))"
  by (simp add: ContainerPool_def pool_ok_def init_pool_def init_step_def docker_run_def
        find_name_def emit_def pool_run_args_def sample_uuids_def empty_daemon_def upt_conv_Cons
        lit_def)

lemma sample_pool1:
  "ContainerPool pool_ok (IntArg 1) (lit ''python:3.9-slim'') empty_daemon =
     (Inr \<lparr>pool_size = 1, image_name = lit ''python:3.9-slim'',
           containers = [\<lparr>cid = 0, cname = lit ''sandbox_pool_c0ffee00''\<rparr>],
           in_use = {}\<rparr>,
      snd (ContainerPool pool_ok (IntArg 1) (lit ''python:3.9-slim'') empty_daemon))"
  by (simp add: ContainerPool_def pool_ok_def init_pool_def init_step_def docker_run_def
        find_name_def emit_def pool_run_args_def sample_uuids_def empty_daemon_def upt_conv_Cons
        lit_def)

text \<open>
  Claim C5, as the code has it. After a \<^verbatim>\<open>ContainerPool(n)\<close> that returned and whose
  \<open>n \<ge> 1\<close> member creations all succeeded, the members have distinct ids and none is
  in use. \<open>n\<close> calls of \<^verbatim>\<open>acquire\<close> with no release, each with a timeout that has
  not elapsed when its loop guard is first tested (the clock read at the guard is less
  than the timeout after the clock read for \<^verbatim>\<open>start\<close>), return the members in pool
  list order, each at its first scan, and leave exactly their ids in use. The next
  \<^verbatim>\<open>acquire\<close>, on a clock that every \<^verbatim>\<open>time.sleep(0.1)\<close> advances by a tenth of a
  second or more, returns: it tests its guard until the first reading at which the
  timeout has elapsed, then raises \<^verbatim>\<open>RuntimeError\<close> and leaves the pool as it was.
\<close>

theorem acquire_all_then_exhausted:
  assumes "ContainerPool env (IntArg n) img w = (Inr p, w')"
    and "length (containers p) = nat n"
    and "1 \<le> n"
    and "\<forall>i<nat n. clock (k + 2 * i + 1) - clock (k + 2 * i) < t"
  shows "distinct (map cid (containers p))
       \<and> in_use p = {}
       \<and> acquire_many clock (nat n) t k p =
           Some (map Inr (containers p), p\<lparr>in_use := cid ` set (containers p)\<rparr>, k + 2 * nat n)
       \<and> ((\<forall>j>k'. clock j + 1 / 10 \<le> clock (Suc j)) \<longrightarrow>
            (\<exists>k''. acquire clock t' k' (p\<lparr>in_use := cid ` set (containers p)\<rparr>) =
                     Some (Inl (RuntimeError (lit ''No containers available in pool'')),
                           p\<lparr>in_use := cid ` set (containers p)\<rparr>, k'')
                  \<and> k' < k'' \<and> t' \<le> clock k'' - clock k'
                  \<and> (\<forall>j. k' < j \<and> j < k'' \<longrightarrow> clock j - clock k' < t')))"
proof -
  from ContainerPool_inv[OF assms(1)]
  have d: "distinct (map cid (containers p))" and e: "in_use p = {}" by simp_all
  have m: "acquire_many clock (length (containers p)) t k p =
        Some (map Inr (containers p), p\<lparr>in_use := cid ` set ([] @ containers p)\<rparr>,
              k + 2 * length (containers p))"
    by (rule acquire_many_rest) (use d e assms(2,4) in auto)
  let ?q = "p\<lparr>in_use := cid ` set (containers p)\<rparr>"
  have f: "find (\<lambda>c. cid c \<notin> in_use ?q) (containers ?q) = None"
    by (simp add: find_all_used)
  have x: "(\<forall>j>k'. clock j + 1 / 10 \<le> clock (Suc j)) \<longrightarrow>
            (\<exists>k''. acquire clock t' k' ?q =
                     Some (Inl (RuntimeError (lit ''No containers available in pool'')), ?q, k'')
                  \<and> k' < k'' \<and> t' \<le> clock k'' - clock k'
                  \<and> (\<forall>j. k' < j \<and> j < k'' \<longrightarrow> clock j - clock k' < t'))"
  proof
    assume s: "\<forall>j>k'. clock j + 1 / 10 \<le> clock (Suc j)"
    then have "\<forall>j\<ge>Suc k'. clock j + 1 / 10 \<le> clock (Suc j)" by simp
    from acquire_loop_exhausted[OF f this, of "clock k'" t']
    show "\<exists>k''. acquire clock t' k' ?q =
                     Some (Inl (RuntimeError (lit ''No containers available in pool'')), ?q, k'')
                  \<and> k' < k'' \<and> t' \<le> clock k'' - clock k'
                  \<and> (\<forall>j. k' < j \<and> j < k'' \<longrightarrow> clock j - clock k' < t')"
      unfolding acquire_def by (auto simp: Suc_le_eq)
  qed
  show ?thesis using d e m x assms(2) by simp
qed

theorem acquire_all_then_exhausted_witness:
  "acquire_many tenths 2 30 0
     \<lparr>pool_size = 2, image_name = lit ''python:3.9-slim'',
      containers = [\<lparr>cid = 0, cname = lit ''sandbox_pool_c0ffee00''\<rparr>,
                    \<lparr>cid = 1, cname = lit ''sandbox_pool_c0ffee01''\<rparr>],
      in_use = {}\<rparr>
   = Some ([Inr \<lparr>cid = 0, cname = lit ''sandbox_pool_c0ffee00''\<rparr>,
            Inr \<lparr>cid = 1, cname = lit ''sandbox_pool_c0ffee01''\<rparr>],
           \<lparr>pool_size = 2, image_name = lit ''python:3.9-slim'',
            containers = [\<lparr>cid = 0, cname = lit ''sandbox_pool_c0ffee00''\<rparr>,
                          \<lparr>cid = 1, cname = lit ''sandbox_pool_c0ffee01''\<rparr>],
            in_use = {0, 1}\<rparr>, 4)
   \<and> (\<exists>k''. acquire tenths 30 4
               \<lparr>pool_size = 2, image_name = lit ''python:3.9-slim'',
                containers = [\<lparr>cid = 0, cname = lit ''sandbox_pool_c0ffee00''\<rparr>,
                              \<lparr>cid = 1, cname = lit ''sandbox_pool_c0ffee01''\<rparr>],
                in_use = {0, 1}\<rparr>
             = Some (Inl (RuntimeError (lit ''No containers available in pool'')),
                     \<lparr>pool_size = 2, image_name = lit ''python:3.9-slim'',
                      containers = [\<lparr>cid = 0, cname = lit ''sandbox_pool_c0ffee00''\<rparr>,
                                    \<lparr>cid = 1, cname = lit ''sandbox_pool_c0ffee01''\<rparr>],
                      in_use = {0, 1}\<rparr>, k'')
           \<and> 30 \<le> tenths k'' - tenths 4)"
proof -
  let ?p = "\<lparr>pool_size = 2, image_name = lit ''python:3.9-slim'',
      containers = [\<lparr>cid = 0, cname = lit ''sandbox_pool_c0ffee00''\<rparr>,
                    \<lparr>cid = 1, cname = lit ''sandbox_pool_c0ffee01''\<rparr>],
      in_use = {}\<rparr>"
  have h2: "length (containers ?p) = nat 2" by simp
  have h4: "\<forall>i<nat 2. tenths (0 + 2 * i + 1) - tenths (0 + 2 * i) < 30"
    by (simp add: tenths_def field_simps)
  have s: "\<forall>j>4. tenths j + 1 / 10 \<le> tenths (Suc j)"
    by (simp add: tenths_def field_simps)
  from acquire_all_then_exhausted[OF sample_pool2 h2 _ h4, of 4 30] s
  show ?thesis by (auto simp: insert_commute)
qed

text \<open>
  Claim C5 as stated fails when the timeout has elapsed at the first test of the guard
  \<^verbatim>\<open>time.time() - start < timeout\<close>: no member is scanned, and the first
  \<^verbatim>\<open>acquire\<close> on a fresh pool of one free member raises. So it is with a timeout
  of 0, and with a timeout of 0.05 s when the two readings of the clock are 0.1 s apart.
\<close>

theorem acquire_zero_timeout_fails:
  "ContainerPool pool_ok (IntArg 1) (lit ''python:3.9-slim'') empty_daemon =
     (Inr \<lparr>pool_size = 1, image_name = lit ''python:3.9-slim'',
           containers = [\<lparr>cid = 0, cname = lit ''sandbox_pool_c0ffee00''\<rparr>],
           in_use = {}\<rparr>,
      snd (ContainerPool pool_ok (IntArg 1) (lit ''python:3.9-slim'') empty_daemon))
   \<and> acquire tenths 0 0
       \<lparr>pool_size = 1, image_name = lit ''python:3.9-slim'',
        containers = [\<lparr>cid = 0, cname = lit ''sandbox_pool_c0ffee00''\<rparr>],
        in_use = {}\<rparr>
     = Some (Inl (RuntimeError (lit ''No containers available in pool'')),
             \<lparr>pool_size = 1, image_name = lit ''python:3.9-slim'',
              containers = [\<lparr>cid = 0, cname = lit ''sandbox_pool_c0ffee00''\<rparr>],
              in_use = {}\<rparr>, 1)
   \<and> acquire tenths (1 / 20) 0
       \<lparr>pool_size = 1, image_name = lit ''python:3.9-slim'',
        containers = [\<lparr>cid = 0, cname = lit ''sandbox_pool_c0ffee00''\<rparr>],
        in_use = {}\<rparr>
     = Some (Inl (RuntimeError (lit ''No containers available in pool'')),
             \<lparr>pool_size = 1, image_name = lit ''python:3.9-slim'',
              containers = [\<lparr>cid = 0, cname = lit ''sandbox_pool_c0ffee00''\<rparr>],
              in_use = {}\<rparr>, 1)"
proof -
  have 0: "\<not> tenths (Suc 0) - tenths 0 < 0" by (simp add: tenths_def)
  have 1: "\<not> tenths (Suc 0) - tenths 0 < 1 / 20" by (simp add: tenths_def)
  show ?thesis using sample_pool1 acquire_elapsed[OF 0] acquire_elapsed[OF 1] by simp
qed

text \<open>
  Claim C6. \<^verbatim>\<open>release\<close> has no failing branch; it removes the handle's id from the
  in-use set, a second release changes nothing more, a handle that is not in use leaves
  the pool as it is, and \<^verbatim>\<open>acquire\<close> cannot tell one release from two.
\<close>

theorem release_idempotent:
  "release c (release c p) = release c p
   \<and> in_use (release c p) = in_use p - {cid c}
   \<and> (cid c \<notin> in_use p \<longrightarrow> release c p = p)
   \<and> acquire clock t k (release c (release c p)) = acquire clock t k (release c p)"
  by (simp add: release_def)

theorem release_idempotent_witness:
  "release \<lparr>cid = 7, cname = lit ''sandbox_pool_77777777''\<rparr>
     \<lparr>pool_size = 1, image_name = lit ''python:3.9-slim'',
      containers = [\<lparr>cid = 0, cname = lit ''sandbox_pool_c0ffee00''\<rparr>], in_use = {0}\<rparr>
   = \<lparr>pool_size = 1, image_name = lit ''python:3.9-slim'',
      containers = [\<lparr>cid = 0, cname = lit ''sandbox_pool_c0ffee00''\<rparr>], in_use = {0}\<rparr>"
  using release_idempotent[of "\<lparr>cid = 7, cname = lit ''sandbox_pool_77777777''\<rparr>"
     "\<lparr>pool_size = 1, image_name = lit ''python:3.9-slim'',
      containers = [\<lparr>cid = 0, cname = lit ''sandbox_pool_c0ffee00''\<rparr>], in_use = {0}\<rparr>"]
  by simp

lemma get_pool_stored: "pool_var g = Some p \<Longrightarrow> get_pool env a g = (Inr p, g)"
  by (simp add: get_pool_def)

lemma get_pool_calls_stored:
  "pool_var g = Some p \<Longrightarrow> get_pool_calls cs g = (replicate (length cs) (Inr p), g)"
proof (induction cs)
  case Nil
  then show ?case by simp
next
  case (Cons c cs)
  then show ?case by (cases c) (simp add: get_pool_stored)
qed

text \<open>
  Claim C10, as the code has it. A \<^verbatim>\<open>get_pool\<close> call made while \<^verbatim>\<open>_pool\<close> is
  \<^verbatim>\<open>None\<close> either returns, and then it has constructed the pool with its own
  \<^verbatim>\<open>pool_size\<close> and stored it, and every later call, whatever \<^verbatim>\<open>pool_size\<close> it
  passes and whatever the runtime would answer, returns that pool and changes neither the
  variable nor the daemon; or it raises (no client, or a \<^verbatim>\<open>pool_size\<close> that is no
  int), and then \<^verbatim>\<open>_pool\<close> is still \<^verbatim>\<open>None\<close> and the calls after it go on as if it
  had not been made.
\<close>

theorem get_pool_first_return_wins:
  assumes "pool_var g = None" and "get_pool env a g = (r, g1)"
  shows "(case r of
            Inr p \<Rightarrow>
              pool_var g1 = Some p \<and> a = IntArg (pool_size p)
              \<and> get_pool env' a' g1 = (Inr p, g1)
              \<and> get_pool_calls ((env, a) # cs) g = (replicate (Suc (length cs)) (Inr p), g1)
          | Inl e \<Rightarrow>
              pool_var g1 = None \<and> g1 = g \<and> (\<not> client_ok env \<or> a = OtherArg)
              \<and> get_pool_calls ((env, a) # cs) g = (Inl e # fst (get_pool_calls cs g), snd (get_pool_calls cs g)))"
proof (cases r)
  case (Inr p)
  obtain w' where c: "ContainerPool env a (lit ''python:3.9-slim'') (daemon g) = (Inr p, w')"
    and g1: "g1 = g\<lparr>pool_var := Some p, daemon := w'\<rparr>"
    using assms Inr by (auto simp: get_pool_def split: prod.splits sum.splits)
  have s: "pool_var g1 = Some p" by (simp add: g1)
  show ?thesis
    using Inr ContainerPool_inv[OF c] s get_pool_stored[OF s] get_pool_calls_stored[OF s, of cs]
      assms(2)
    by simp
next
  case (Inl e)
  obtain w' where c: "ContainerPool env a (lit ''python:3.9-slim'') (daemon g) = (Inl e, w')"
    and g1: "g1 = g\<lparr>daemon := w'\<rparr>"
    using assms Inl by (auto simp: get_pool_def split: prod.splits sum.splits)
  from ContainerPool_raises[OF c] g1 have "g1 = g" "\<not> client_ok env \<or> a = OtherArg" by simp_all
  then show ?thesis using Inl assms by (simp split: prod.splits)
qed

theorem get_pool_first_return_wins_witness:
  "get_pool_calls [(pool_ok, IntArg 2), (pool_ok, IntArg 5), (no_client, OtherArg)]
       \<lparr>pool_var = None, daemon = empty_daemon\<rparr>
   = (replicate 3 (Inr \<lparr>pool_size = 2, image_name = lit ''python:3.9-slim'',
           containers = [\<lparr>cid = 0, cname = lit ''sandbox_pool_c0ffee00''\<rparr>,
                         \<lparr>cid = 1, cname = lit ''sandbox_pool_c0ffee01''\<rparr>],
           in_use = {}\<rparr>),
      snd (get_pool pool_ok (IntArg 2) \<lparr>pool_var = None, daemon = empty_daemon\<rparr>))"
proof -
  let ?g = "\<lparr>pool_var = None, daemon = empty_daemon\<rparr>"
  let ?p = "\<lparr>pool_size = 2, image_name = lit ''python:3.9-slim'',
           containers = [\<lparr>cid = 0, cname = lit ''sandbox_pool_c0ffee00''\<rparr>,
                         \<lparr>cid = 1, cname = lit ''sandbox_pool_c0ffee01''\<rparr>],
           in_use = {}\<rparr>"
  have h1: "pool_var ?g = None" by simp
  obtain w2 where c: "ContainerPool pool_ok (IntArg 2) (lit ''python:3.9-slim'') empty_daemon = (Inr ?p, w2)"
    using sample_pool2 by blast
  have h2: "get_pool pool_ok (IntArg 2) ?g = (Inr ?p, ?g\<lparr>pool_var := Some ?p, daemon := w2\<rparr>)"
    by (simp add: get_pool_def c)
  from get_pool_first_return_wins[OF h1 h2, where cs = "[(pool_ok, IntArg 5), (no_client, OtherArg)]"]
  show ?thesis unfolding h2 by (simp add: numeral_3_eq_3)
qed

lemma sample_get_pool5:
  "fst (get_pool pool_ok (IntArg 5) \<lparr>pool_var = None, daemon = empty_daemon\<rparr>)
     = Inr \<lparr>pool_size = 5, image_name = lit ''python:3.9-slim'',
            containers = [\<lparr>cid = 0, cname = lit ''sandbox_pool_c0ffee00''\<rparr>,
                          \<lparr>cid = 1, cname = lit ''sandbox_pool_c0ffee01''\<rparr>,
                          \<lparr>cid = 2, cname = lit ''sandbox_pool_c0ffee02''\<rparr>,
                          \<lparr>cid = 3, cname = lit ''sandbox_pool_c0ffee03''\<rparr>,
                          \<lparr>cid = 4, cname = lit ''sandbox_pool_c0ffee04''\<rparr>],
            in_use = {}\<rparr>"
  by (simp add: get_pool_def ContainerPool_def pool_ok_def init_pool_def init_step_def
        docker_run_def find_name_def emit_def pool_run_args_def sample_uuids_def empty_daemon_def
        upt_conv_Cons lit_def)

text \<open>
  Claim C10 as stated fails when the first call raises: \<^verbatim>\<open>docker.from_env()\<close> and
  \<^verbatim>\<open>range(self.pool_size)\<close> are outside any \<^verbatim>\<open>try\<close>, the assignment to
  \<^verbatim>\<open>_pool\<close> is not reached, and it is the second call that constructs the pool, with
  its own \<^verbatim>\<open>pool_size\<close> of 5, which the third call, passing 2 again, then gets.
\<close>

theorem get_pool_failed_first_call:
  "get_pool no_client (IntArg 2) \<lparr>pool_var = None, daemon = empty_daemon\<rparr>
     = (Inl DockerException, \<lparr>pool_var = None, daemon = empty_daemon\<rparr>)
   \<and> get_pool pool_ok OtherArg \<lparr>pool_var = None, daemon = empty_daemon\<rparr>
     = (Inl TypeError, \<lparr>pool_var = None, daemon = empty_daemon\<rparr>)
   \<and> map (map_sum id pool_size)
        (fst (get_pool_calls [(no_client, IntArg 2), (pool_ok, IntArg 5), (pool_ok, IntArg 2)]
               \<lparr>pool_var = None, daemon = empty_daemon\<rparr>))
     = [Inl DockerException, Inr 5, Inr 5]"
proof -
  let ?g = "\<lparr>pool_var = None, daemon = empty_daemon\<rparr>"
  have a: "get_pool no_client (IntArg 2) ?g = (Inl DockerException, ?g)"
    by (simp add: get_pool_def ContainerPool_def no_client_def)
  have b: "get_pool pool_ok OtherArg ?g = (Inl TypeError, ?g)"
    by (simp add: get_pool_def ContainerPool_def pool_ok_def)
  obtain p g1 where c: "get_pool pool_ok (IntArg 5) ?g = (Inr p, g1)" and p: "pool_size p = 5"
    and s: "pool_var g1 = Some p"
    using sample_get_pool5
    by (cases "get_pool pool_ok (IntArg 5) ?g")
       (auto simp: get_pool_def split: prod.splits sum.splits)
  have "fst (get_pool_calls [(no_client, IntArg 2), (pool_ok, IntArg 5), (pool_ok, IntArg 2)] ?g)
      = [Inl DockerException, Inr p, Inr p]"
    by (simp add: a c get_pool_stored[OF s])
  then show ?thesis using a b p by simp
qed


section \<open>run\_code: the result\<close>

lemma utf8_decode_samples:
  "utf8_decode [0xC3, 0xA9] = Some [233]"
  "utf8_decode [0xE2, 0x82, 0xAC] = Some [8364]"
  "utf8_decode [0xF0, 0x9F, 0x98, 0x80] = Some [128512]"
  "utf8_decode [0xC0, 0x80] = None"
  "utf8_decode [0xED, 0xA0, 0x80] = None"
  "utf8_decode [0xF4, 0x90, 0x80, 0x80] = None"
  "utf8_decode [0xE2, 0x82] = None"
  "utf8_decode_ignore [0x61, 0xFF, 0xE2, 0x82, 0x62] = [97, 98]"
  by (simp_all add: cont_def)

lemma str_int_samples: "str_int 124 = lit ''124''" "str_int (- 1) = lit ''-1''" "str_int 0 = lit ''0''"
  by (simp_all add: str_int_def lit_def)


text \<open>
  Claim C2, as the code has it. When the exec is dispatched and both streams decode as
  UTF-8 (an absent or empty stream is the empty text), \<^verbatim>\<open>run_code\<close> returns a value:
  with exit code 0, the stdout text itself when it is not empty, else the stderr text
  after \<^verbatim>\<open>Error: \<close> when that is not empty, else \<^verbatim>\<open>No output\<close>; with any other
  exit code, \<^verbatim>\<open>Error (exit code N): \<close> followed by the stderr text.
\<close>

theorem run_code_classification:
  assumes "container sb = Some c"
    and "exec_run [lit ''sh'', lit ''-c'', exec_command env_vars (dedent code)] = Inr r"
    and "decode_stream (fst (demux_output r)) = Inr out"
    and "decode_stream (snd (demux_output r)) = Inr err"
  shows "run_code dedent exec_run sb env_vars code =
           Inr (if exit_code r = 0 \<and> out \<noteq> [] then out
                else if exit_code r = 0 \<and> err \<noteq> [] then lit ''Error: '' @ err
                else if exit_code r = 0 then lit ''No output''
                else lit ''Error (exit code '' @ str_int (exit_code r) @ lit ''): '' @ err)"
  using assms by (simp add: run_code_def classify_def)

theorem run_code_classification_witness:
  "run_code (\<lambda>s. s) (\<lambda>argv. Inr \<lparr>exit_code = 0, demux_output = (Some [0x68, 0x69, 0x0A], None)\<rparr>) sample_sandbox []
      (lit ''print(1)'') = Inr (lit ''hi'' @ [10])
   \<and> run_code (\<lambda>s. s) (\<lambda>argv. Inr \<lparr>exit_code = 0, demux_output = (None, Some [0x77])\<rparr>) sample_sandbox []
      (lit ''print(1)'') = Inr (lit ''Error: w'')
   \<and> run_code (\<lambda>s. s) (\<lambda>argv. Inr \<lparr>exit_code = 0, demux_output = (None, None)\<rparr>) sample_sandbox []
      (lit ''print(1)'') = Inr (lit ''No output'')
   \<and> run_code (\<lambda>s. s) (\<lambda>argv. Inr \<lparr>exit_code = 3, demux_output = (Some [0x68], Some [0xC3, 0xA9])\<rparr>) sample_sandbox []
      (lit ''print(1)'') = Inr (lit ''Error (exit code 3): '' @ [233])"
proof -
  have c: "container sample_sandbox = Some \<lparr>cid = 0, cname = lit ''sandbox_persistent''\<rparr>"
    by (simp add: sample_sandbox_def)
  have 1: "run_code (\<lambda>s. s) (\<lambda>argv. Inr \<lparr>exit_code = 0, demux_output = (Some [0x68, 0x69, 0x0A], None)\<rparr>) sample_sandbox []
      (lit ''print(1)'') = Inr (lit ''hi'' @ [10])"
    using run_code_classification[OF c, of "\<lambda>argv. Inr \<lparr>exit_code = 0, demux_output = (Some [0x68, 0x69, 0x0A], None)\<rparr>"
       "[]" "\<lambda>s. s" "lit ''print(1)''" _ "lit ''hi'' @ [10]" "[]"]
    by (simp add: decode_stream_def lit_def)
  have 2: "run_code (\<lambda>s. s) (\<lambda>argv. Inr \<lparr>exit_code = 0, demux_output = (None, Some [0x77])\<rparr>) sample_sandbox []
      (lit ''print(1)'') = Inr (lit ''Error: w'')"
    using run_code_classification[OF c, of "\<lambda>argv. Inr \<lparr>exit_code = 0, demux_output = (None, Some [0x77])\<rparr>"
       "[]" "\<lambda>s. s" "lit ''print(1)''" _ "[]" "lit ''w''"]
    by (simp add: decode_stream_def lit_def)
  have 3: "run_code (\<lambda>s. s) (\<lambda>argv. Inr \<lparr>exit_code = 0, demux_output = (None, None)\<rparr>) sample_sandbox []
      (lit ''print(1)'') = Inr (lit ''No output'')"
    using run_code_classification[OF c, of "\<lambda>argv. Inr \<lparr>exit_code = 0, demux_output = (None, None)\<rparr>"
       "[]" "\<lambda>s. s" "lit ''print(1)''" _ "[]" "[]"]
    by (simp add: decode_stream_def lit_def)
  have 4: "run_code (\<lambda>s. s) (\<lambda>argv. Inr \<lparr>exit_code = 3, demux_output = (Some [0x68], Some [0xC3, 0xA9])\<rparr>) sample_sandbox []
      (lit ''print(1)'') = Inr (lit ''Error (exit code 3): '' @ [233])"
    using run_code_classification[OF c, of "\<lambda>argv. Inr \<lparr>exit_code = 3, demux_output = (Some [0x68], Some [0xC3, 0xA9])\<rparr>"
       "[]" "\<lambda>s. s" "lit ''print(1)''" _ "lit ''h''" "[233]"]
    by (simp add: decode_stream_def lit_def str_int_def cont_def)
  show ?thesis using 1 2 3 4 by blast
qed

text \<open>
  Claim C2 as stated fails when a stream is not UTF-8: \<^verbatim>\<open>stdout.decode('utf-8')\<close>
  raises, with exit code 0 as well as with a non-zero one, and \<^verbatim>\<open>run_code\<close> has no
  handler. The code run writes the single byte 255.
\<close>

theorem run_code_undecodable_output_raises:
  "run_code (\<lambda>s. s) (\<lambda>argv. Inr \<lparr>exit_code = 0, demux_output = (Some [0xFF], None)\<rparr>) sample_sandbox []
      (lit ''import sys; sys.stdout.buffer.write(bytes([255]))'') = Inl UnicodeDecodeError
   \<and> run_code (\<lambda>s. s) (\<lambda>argv. Inr \<lparr>exit_code = 1, demux_output = (None, Some [0xFF])\<rparr>) sample_sandbox []
      (lit ''import sys; sys.stderr.buffer.write(bytes([255])); sys.exit(1)'') = Inl UnicodeDecodeError"
  by (simp add: run_code_def sample_sandbox_def decode_stream_def)

section \<open>run\_code: the quoting of the code\<close>

lemma sh_single_quoted:
  "sh_words Single (Some acc) (replace_quote s @ 39 # rest) = sh_words Unquoted (Some (acc @ s)) rest"
proof (induction s arbitrary: acc)
  case Nil
  then show ?case by simp
next
  case (Cons c s)
  show ?case
  proof (cases "c = 39")
    case True
    have "sh_words Single (Some acc) (replace_quote (c # s) @ 39 # rest)
        = sh_words Single (Some (acc @ [39])) (replace_quote s @ 39 # rest)"
      using True by (simp add: word_of_def sh_blank_def sh_plain_def)
    then show ?thesis using Cons.IH[of "acc @ [39]"] True by simp
  next
    case False
    then show ?thesis using Cons.IH[of "acc @ [c]"] by (simp add: word_of_def)
  qed
qed

lemma plain_not_special: "sh_plain c \<Longrightarrow> \<not> sh_blank c \<and> c \<noteq> 39 \<and> c \<noteq> 34"
  by (auto simp: sh_plain_def sh_blank_def alnum_def lit_def)

lemma sh_plain_word:
  "list_all sh_plain k \<Longrightarrow> k \<noteq> [] \<Longrightarrow>
   sh_words Unquoted cur (k @ rest) = sh_words Unquoted (Some (word_of cur @ k)) rest"
proof (induction k arbitrary: cur)
  case Nil
  then show ?case by simp
next
  case (Cons c k)
  have c: "sh_plain c" "\<not> sh_blank c" "c \<noteq> 39" "c \<noteq> 34"
    using Cons.prems plain_not_special[of c] by auto
  show ?case
  proof (cases "k = []")
    case True
    then show ?thesis using c by simp
  next
    case False
    then show ?thesis using c Cons.IH[of "Some (word_of cur @ [c])"] Cons.prems
      by (simp add: word_of_def)
  qed
qed

lemma sh_shlex_quote:
  "sh_words Unquoted (Some acc) (shlex_quote v @ rest) = sh_words Unquoted (Some (acc @ v)) rest"
proof -
  consider "v = []" | "v \<noteq> []" "list_all shlex_safe v" | "v \<noteq> []" "\<not> list_all shlex_safe v" by blast
  then show ?thesis
  proof cases
    case 1
    then show ?thesis by (simp add: shlex_quote_def sh_blank_def word_of_def)
  next
    case 2
    then have "list_all sh_plain v" by (simp add: sh_plain_def shlex_safe_def list_all_iff)
    from sh_plain_word[OF this 2(1), of "Some acc" rest] 2 show ?thesis
      by (simp add: shlex_quote_def word_of_def)
  next
    case 3
    then show ?thesis using sh_single_quoted[of acc v rest]
      by (simp add: shlex_quote_def sh_blank_def word_of_def)
  qed
qed

lemma env_name_plain: "env_name k \<Longrightarrow> list_all sh_plain k \<and> k \<noteq> [] \<and> 61 \<notin> set k"
  by (auto simp: env_name_def sh_plain_def list_all_iff lit_def alnum_def)

lemma sh_assignment:
  assumes "env_name k"
  shows "sh_words Unquoted None (k @ [61] @ shlex_quote v @ 32 # rest)
         = map_option ((#) (k @ [61] @ v)) (sh_words Unquoted None rest)"
proof -
  have p: "list_all sh_plain (k @ [61])" "k @ [61] \<noteq> []"
    using env_name_plain[OF assms] by (auto simp: sh_plain_def lit_def)
  have "sh_words Unquoted None ((k @ [61]) @ shlex_quote v @ 32 # rest)
      = sh_words Unquoted (Some (k @ [61])) (shlex_quote v @ 32 # rest)"
    using sh_plain_word[OF p, of None] by (simp add: word_of_def)
  also have "\<dots> = sh_words Unquoted (Some ((k @ [61]) @ v)) (32 # rest)"
    by (rule sh_shlex_quote)
  also have "\<dots> = map_option ((#) (k @ [61] @ v)) (sh_words Unquoted None rest)"
    by (simp add: sh_blank_def)
  finally show ?thesis by simp
qed

lemma sh_env_str:
  assumes "\<forall>(k, v)\<in>set evs. env_name k"
  shows "sh_words Unquoted None (env_str evs @ 32 # rest)
         = map_option ((@) (map (\<lambda>(k, v). k @ [61] @ v) evs)) (sh_words Unquoted None rest)"
  using assms
proof (induction evs rule: induct_list012)
  case 1
  then show ?case by (simp add: env_str_def sh_blank_def option.map_ident)
next
  case (2 x)
  obtain k v where x: "x = (k, v)" by (cases x)
  with 2 have "env_name k" by simp
  from sh_assignment[OF this, of v rest] x show ?case
    by (simp add: env_str_def sh_blank_def)
next
  case (3 x y zs)
  obtain k v where x: "x = (k, v)" by (cases x)
  with 3 have n: "env_name k" by simp
  have ih: "sh_words Unquoted None (env_str (y # zs) @ 32 # rest)
         = map_option ((@) (map (\<lambda>(k, v). k @ [61] @ v) (y # zs))) (sh_words Unquoted None rest)"
    by (rule "3.IH"(2)) (use "3.prems" in simp)
  have "env_str (x # y # zs) @ 32 # rest
      = k @ [61] @ shlex_quote v @ 32 # (env_str (y # zs) @ 32 # rest)"
    using x by (simp add: env_str_def)
  then show ?case using sh_assignment[OF n, of v "env_str (y # zs) @ 32 # rest"] ih x
    by (cases "sh_words Unquoted None rest") simp_all
qed

lemma sh_python_c:
  "sh_words Unquoted None (lit ''python -c '' @ [39] @ replace_quote code @ [39])
     = Some [lit ''python'', lit ''-c'', code]"
proof -
  have "sh_words Unquoted None (lit ''python -c '' @ [39] @ replace_quote code @ [39])
      = map_option (\<lambda>ws. lit ''python'' # lit ''-c'' # ws)
          (sh_words Single (Some []) (replace_quote code @ 39 # []))"
    by (simp add: lit_def sh_blank_def sh_plain_def alnum_def word_of_def option.map_comp comp_def)
  then show ?thesis using sh_single_quoted[of "[]" code "[]"] by simp
qed

lemma sh_c_exec_command:
  assumes "\<forall>(k, v)\<in>set evs. env_name k"
  shows "sh_c (exec_command evs code)
         = Some (lit ''env'' # map (\<lambda>(k, v). k @ [61] @ v) evs @ [lit ''python'', lit ''-c'', code])"
proof -
  have e: "exec_command evs code
      = lit ''env'' @ 32 # (env_str evs @ 32 # (lit ''python -c '' @ [39] @ replace_quote code @ [39]))"
    by (simp add: exec_command_def lit_def)
  have "list_all sh_plain (lit ''env'')" "lit ''env'' \<noteq> []"
    by (simp_all add: lit_def sh_plain_def alnum_def)
  from sh_plain_word[OF this, of None]
  have "sh_c (exec_command evs code)
      = map_option ((#) (lit ''env''))
          (sh_words Unquoted None (env_str evs @ 32 # (lit ''python -c '' @ [39] @ replace_quote code @ [39])))"
    unfolding e sh_c_def by (simp add: word_of_def sh_blank_def)
  then show ?thesis using sh_env_str[OF assms] sh_python_c by simp
qed

lemma split_eq_assignment: "61 \<notin> set k \<Longrightarrow> split_eq (k @ [61] @ v) = (k, v)"
  by (induction k) auto

lemma env_utility_assignments:
  assumes "\<forall>(k, v)\<in>set evs. env_name k" and "61 \<notin> set u"
  shows "env_utility (map (\<lambda>(k, v). k @ [61] @ v) evs @ u # args) = (evs, u # args)"
  using assms
proof (induction evs)
  case Nil
  then show ?case by simp
next
  case (Cons x evs)
  obtain k v where x: "x = (k, v)" by (cases x)
  with Cons.prems have "61 \<notin> set k" using env_name_plain[of k] by simp
  then show ?case using Cons x split_eq_assignment[of k v] by simp
qed

lemma sh_exec_exec_command:
  assumes "\<forall>(k, v)\<in>set evs. env_name k"
  shows "sh_exec python other [lit ''sh'', lit ''-c'', exec_command evs code] = python evs code"
proof -
  have "61 \<notin> set (lit ''python'')" by (simp add: lit_def)
  from env_utility_assignments[OF assms this, of "[lit ''-c'', code]"]
  show ?thesis by (simp add: sh_exec_def sh_c_exec_command[OF assms])
qed

lemma run_code_answer:
  "run_code dedent exec_run sb env_vars code =
     (case container sb of
        None \<Rightarrow> Inl AttributeError
      | Some c \<Rightarrow> answer (exec_run [lit ''sh'', lit ''-c'', exec_command env_vars (dedent code)]))"
  by (simp add: run_code_def answer_def split: option.splits sum.splits)

text \<open>
  Claim C4, as the code has it. For every code string and every dict of environment
  variables whose names are variable names (the dict that \<^verbatim>\<open>run_code\<close> takes when
  none is given is empty), the shell splits the command line that \<^verbatim>\<open>run_code\<close>
  builds into \<^verbatim>\<open>env\<close>, one \<^verbatim>\<open>name=value\<close> word per variable, \<^verbatim>\<open>python\<close>,
  \<^verbatim>\<open>-c\<close> and one last word that is the dedented code, character for character; the
  container that is handed this line runs the interpreter on exactly that code under
  exactly these variables; and \<^verbatim>\<open>run_code\<close> on a sandbox that holds a container
  returns what it makes of the interpreter's answer to that code, whatever the
  interpreter is, embedded single quotes or not.
\<close>

theorem quoting_delivers_code:
  assumes "\<forall>(k, v)\<in>set env_vars. env_name k"
  shows "sh_c (exec_command env_vars (dedent code))
           = Some (lit ''env'' # map (\<lambda>(k, v). k @ [61] @ v) env_vars
                   @ [lit ''python'', lit ''-c'', dedent code])
       \<and> sh_exec python other [lit ''sh'', lit ''-c'', exec_command env_vars (dedent code)]
           = python env_vars (dedent code)
       \<and> run_code dedent (sh_exec python other) (sb\<lparr>container := Some c\<rparr>) env_vars code
           = answer (python env_vars (dedent code))
       \<and> run_code dedent (sh_exec python other) (sb\<lparr>container := None\<rparr>) env_vars code
           = Inl AttributeError"
proof -
  have w: "sh_c (exec_command env_vars (dedent code))
           = Some (lit ''env'' # map (\<lambda>(k, v). k @ [61] @ v) env_vars
                   @ [lit ''python'', lit ''-c'', dedent code])"
    by (rule sh_c_exec_command[OF assms])
  have x: "sh_exec python other [lit ''sh'', lit ''-c'', exec_command env_vars (dedent code)]
           = python env_vars (dedent code)"
    by (rule sh_exec_exec_command[OF assms])
  have r: "run_code dedent (sh_exec python other) (sb\<lparr>container := Some c\<rparr>) env_vars code
           = answer (python env_vars (dedent code))"
    unfolding run_code_answer x by simp
  have n: "run_code dedent (sh_exec python other) (sb\<lparr>container := None\<rparr>) env_vars code
           = Inl AttributeError"
    unfolding run_code_answer by simp
  show ?thesis using w x r n by blast
qed

theorem quoting_delivers_code_witness:
  "sh_c (exec_command [(lit ''GREETING'', lit ''a b'')] sample_code)
     = Some [lit ''env'', lit ''GREETING=a b'', lit ''python'', lit ''-c'', sample_code]
   \<and> exec_command [(lit ''GREETING'', lit ''a b'')] sample_code
     = lit ''env GREETING='' @ [39] @ lit ''a b'' @ [39] @ lit '' python -c '' @ [39]
       @ lit ''print('' @ [39, 34, 39, 34, 39] @ lit ''it'' @ [39, 34, 39, 34, 39, 39, 34, 39, 34, 39]
       @ lit ''s ok'' @ [39, 34, 39, 34, 39] @ lit '')'' @ [39]
   \<and> run_code (\<lambda>s. s) (sh_exec sample_python sample_other) sample_sandbox
        [(lit ''GREETING'', lit ''a b'')] sample_code
     = Inr (lit ''its ok'' @ [10])"
proof -
  have h: "\<forall>(k, v)\<in>set [(lit ''GREETING'', lit ''a b'')]. env_name k"
    by (simp add: env_name_def alnum_def lit_def)
  have c: "exec_command [(lit ''GREETING'', lit ''a b'')] sample_code
     = lit ''env GREETING='' @ [39] @ lit ''a b'' @ [39] @ lit '' python -c '' @ [39]
       @ lit ''print('' @ [39, 34, 39, 34, 39] @ lit ''it'' @ [39, 34, 39, 34, 39, 39, 34, 39, 34, 39]
       @ lit ''s ok'' @ [39, 34, 39, 34, 39] @ lit '')'' @ [39]"
    by (simp add: exec_command_def env_str_def shlex_quote_def shlex_safe_def alnum_def sample_code_def lit_def)
  have s: "sample_sandbox\<lparr>container := Some \<lparr>cid = 0, cname = lit ''sandbox_persistent''\<rparr>\<rparr>
             = sample_sandbox"
    by (simp add: sample_sandbox_def)
  have p: "sample_code \<noteq> lit ''print(1)''" by (simp add: sample_code_def lit_def)
  have a: "answer (sample_python [(lit ''GREETING'', lit ''a b'')] sample_code)
             = Inr (lit ''its ok'' @ [10])"
  proof -
    have "sample_python [(lit ''GREETING'', lit ''a b'')] sample_code
            = Inr \<lparr>exit_code = 0,
                   demux_output = (Some [0x69, 0x74, 0x73, 0x20, 0x6F, 0x6B, 0x0A], None)\<rparr>"
      by (simp add: sample_python_def p)
    then show ?thesis by (simp add: answer_def decode_stream_def classify_def lit_def)
  qed
  from quoting_delivers_code[OF h, where dedent = "\<lambda>s. s" and code = sample_code
      and python = sample_python and other = sample_other and sb = sample_sandbox
      and c = "\<lparr>cid = 0, cname = lit ''sandbox_persistent''\<rparr>"] c
  show ?thesis unfolding s a by (simp add: lit_def)
qed

text \<open>
  Claim C4 as stated fails on the names of the variables: \<^verbatim>\<open>run_code\<close> quotes the
  values with \<^verbatim>\<open>shlex.quote\<close> and writes the names as they are. With a name that
  holds a blank, \<^verbatim>\<open>A B\<close>, the shell splits the line into \<^verbatim>\<open>env\<close>, \<^verbatim>\<open>A\<close>,
  \<^verbatim>\<open>B=1\<close>, \<^verbatim>\<open>python\<close>, \<^verbatim>\<open>-c\<close> and the code: \<^verbatim>\<open>env\<close> is asked to run
  \<^verbatim>\<open>A\<close>, the interpreter never receives the code \<^verbatim>\<open>print(1)\<close>, which holds no
  quote at all, and \<^verbatim>\<open>run_code\<close> returns the complaint of \<^verbatim>\<open>env\<close> where the
  same code without the variable returns \<^verbatim>\<open>1\<close>.
\<close>

theorem unquoted_variable_name_breaks_command:
  "sh_c (exec_command [(lit ''A B'', lit ''1'')] (lit ''print(1)''))
     = Some [lit ''env'', lit ''A'', lit ''B=1'', lit ''python'', lit ''-c'', lit ''print(1)'']
   \<and> env_utility [lit ''A'', lit ''B=1'', lit ''python'', lit ''-c'', lit ''print(1)'']
     = ([], [lit ''A'', lit ''B=1'', lit ''python'', lit ''-c'', lit ''print(1)''])
   \<and> sh_exec sample_python sample_other
        [lit ''sh'', lit ''-c'', exec_command [(lit ''A B'', lit ''1'')] (lit ''print(1)'')]
     = sample_other
        [lit ''sh'', lit ''-c'', exec_command [(lit ''A B'', lit ''1'')] (lit ''print(1)'')]
   \<and> run_code (\<lambda>s. s) (sh_exec sample_python sample_other) sample_sandbox
        [(lit ''A B'', lit ''1'')] (lit ''print(1)'')
     = Inr (lit ''Error (exit code 127): env: '' @ [39] @ lit ''A'' @ [39]
            @ lit '': No such file or directory'' @ [10])
   \<and> run_code (\<lambda>s. s) (sh_exec sample_python sample_other) sample_sandbox []
        (lit ''print(1)'')
     = Inr (lit ''1'' @ [10])"
proof -
  have w: "sh_c (exec_command [(lit ''A B'', lit ''1'')] (lit ''print(1)''))
     = Some [lit ''env'', lit ''A'', lit ''B=1'', lit ''python'', lit ''-c'', lit ''print(1)'']"
    by (simp add: sh_c_def exec_command_def env_str_def shlex_quote_def shlex_safe_def
          sh_blank_def sh_plain_def alnum_def word_of_def lit_def)
  have e: "env_utility [lit ''A'', lit ''B=1'', lit ''python'', lit ''-c'', lit ''print(1)'']
     = ([], [lit ''A'', lit ''B=1'', lit ''python'', lit ''-c'', lit ''print(1)''])"
    by (simp add: lit_def)
  have x: "sh_exec sample_python sample_other
        [lit ''sh'', lit ''-c'', exec_command [(lit ''A B'', lit ''1'')] (lit ''print(1)'')]
     = sample_other
        [lit ''sh'', lit ''-c'', exec_command [(lit ''A B'', lit ''1'')] (lit ''print(1)'')]"
  proof -
    have "61 \<notin> set (lit ''A'')" by (simp add: lit_def)
    then show ?thesis by (simp add: sh_exec_def w)
  qed
  have r: "run_code (\<lambda>s. s) (sh_exec sample_python sample_other) sample_sandbox
        [(lit ''A B'', lit ''1'')] (lit ''print(1)'')
     = Inr (lit ''Error (exit code 127): env: '' @ [39] @ lit ''A'' @ [39]
            @ lit '': No such file or directory'' @ [10])"
    unfolding run_code_answer x
    by (simp add: sample_sandbox_def sample_other_def answer_def decode_stream_def classify_def
          str_int_def lit_def)
  have "sh_exec sample_python sample_other [lit ''sh'', lit ''-c'', exec_command [] (lit ''print(1)'')]
          = sample_python [] (lit ''print(1)'')"
    by (rule sh_exec_exec_command) simp
  then have q: "run_code (\<lambda>s. s) (sh_exec sample_python sample_other) sample_sandbox []
        (lit ''print(1)'')
     = Inr (lit ''1'' @ [10])"
    unfolding run_code_answer
    by (simp add: sample_sandbox_def sample_python_def answer_def decode_stream_def classify_def
          lit_def)
  show ?thesis using w e x r q by blast
qed

text \<open>The shell model tells quoting apart: without the escaping, an embedded quote splits the code.\<close>

lemma unescaped_quote_splits:
  "sh_c (lit ''python -c '' @ [39] @ lit ''print('' @ [39] @ lit ''a b'' @ [39] @ lit '')'' @ [39])
     = Some [lit ''python'', lit ''-c'', lit ''print(a'', lit ''b)'']"
  by (simp add: sh_c_def lit_def sh_blank_def sh_plain_def alnum_def word_of_def)

section \<open>Sandbox setup and close\<close>

lemma untouched_emit: "untouched (emit e w) = (untouched w \<and> \<not> touches_persistent e)"
  by (auto simp: untouched_def emit_def)

lemma untouched_conts [simp]:
  "untouched (w\<lparr>conts := cs\<rparr>) = untouched w"
  "untouched (w\<lparr>images := im\<rparr>) = untouched w"
  "untouched (w\<lparr>next_id := n\<rparr>) = untouched w"
  by (simp_all add: untouched_def)

lemma untouched_set_status [simp]: "untouched (set_status i s w) = untouched w"
  by (simp add: set_status_def)

lemma untouched_delete [simp]: "untouched (delete_cont i w) = untouched w"
  by (simp add: delete_cont_def)

lemma untouched_stop:
  "cname c \<noteq> persistent_name \<Longrightarrow> untouched (snd (docker_stop ok c w)) = untouched w"
  by (simp add: docker_stop_def untouched_emit)

lemma untouched_remove:
  "cname c \<noteq> persistent_name \<Longrightarrow> untouched (snd (docker_remove ok c w)) = untouched w"
  by (simp add: docker_remove_def untouched_emit)

lemma untouched_run: "untouched (snd (docker_run ok a w)) = untouched w"
  by (simp add: docker_run_def untouched_emit)

lemma untouched_build: "untouched (snd (docker_build ok d w)) = untouched w"
  by (simp add: docker_build_def untouched_emit)

lemma untouched_image_remove: "untouched (snd (docker_image_remove ok i w)) = untouched w"
  by (simp add: docker_image_remove_def untouched_emit)

lemma untouched_attempts: "untouched (remove_image_attempts oks img i n w) = untouched w"
proof (induction n arbitrary: i w)
  case 0
  then show ?case by simp
next
  case (Suc n)
  show ?case
  proof (cases "docker_image_remove (oks i) img w")
    case (Pair r w')
    with untouched_image_remove[of "oks i" img w] have "untouched w' = untouched w" by simp
    with Pair Suc show ?thesis by (cases r) simp_all
  qed
qed

lemma conts_attempts: "conts (remove_image_attempts oks img i n w) = conts w"
  by (induction n arbitrary: i w)
     (auto simp: docker_image_remove_def emit_def split: prod.splits option.splits if_splits)

lemma untouched_close_container: "untouched (snd (close_container env sb w)) = untouched w"
proof (cases "container sb")
  case None
  then show ?thesis by (simp add: close_container_def)
next
  case (Some c)
  show ?thesis
  proof (cases "cname c = persistent_name")
    case True
    with Some show ?thesis by (simp add: close_container_def)
  next
    case False
    obtain r w' where s: "docker_stop (stop_ok env) c w = (r, w')" by (cases "docker_stop (stop_ok env) c w")
    with untouched_stop[OF False, of "stop_ok env" w] have "untouched w' = untouched w" by simp
    with Some False s untouched_remove[OF False, of "remove_ok env" w'] show ?thesis
      by (cases r) (simp_all add: close_container_def)
  qed
qed

lemma untouched_close: "untouched (snd (close env sb w)) = untouched w"
proof -
  obtain sb' w' where c: "close_container env sb w = (sb', w')" by (cases "close_container env sb w")
  with untouched_close_container[of env sb w] have "untouched w' = untouched w" by simp
  with c show ?thesis by (cases "temp_image sb'") (simp_all add: close_def untouched_attempts)
qed

lemma close_persistent_conts:
  assumes "container sb = Some c" and "cname c = persistent_name"
  shows "conts (snd (close env sb w)) = conts w"
  using assms by (simp add: close_def close_container_def conts_attempts split: option.splits)

lemma closed_fields:
  "container (fst (close env sb w)) = None \<and> temp_image (fst (close env sb w)) = None"
  by (simp add: close_def close_container_def split: option.splits prod.splits)

lemma close_closed:
  "container sb = None \<Longrightarrow> temp_image sb = None \<Longrightarrow> close env sb w = (sb, w)"
  by (simp add: close_def close_container_def)

lemma untouched_create_container:
  "untouched (snd (snd (create_container env a pkgs img sb w))) = untouched w"
  using untouched_run[of "run_ok env" "sandbox_run_args a img (container_name env (custom_image a) pkgs)" w]
  by (auto simp: create_container_def split: prod.splits sum.splits)

lemma untouched_create_sandbox:
  "untouched (snd (snd (create_sandbox env a pkgs sb w))) = untouched w"
proof (cases "\<exists>p ps. pkgs = Some (p # ps)")
  case True
  then obtain p ps where p: "pkgs = Some (p # ps)" by blast
  let ?b = "case custom_image a of None \<Rightarrow> default_image | Some i \<Rightarrow> if i = [] then default_image else i"
  obtain r w' where b: "docker_build (build_ok env) (dockerfile ?b (p # ps)) w = (r, w')"
    by (cases "docker_build (build_ok env) (dockerfile ?b (p # ps)) w")
  with untouched_build[of "build_ok env" "dockerfile ?b (p # ps)" w] have u: "untouched w' = untouched w" by simp
  show ?thesis using p b u untouched_create_container
    by (cases r) (simp_all add: create_sandbox_def)
next
  case False
  then have "create_sandbox env a pkgs sb w =
      create_container env a pkgs
        (Tag (case custom_image a of None \<Rightarrow> default_image | Some i \<Rightarrow> if i = [] then default_image else i)) sb w"
    by (auto simp: create_sandbox_def split: option.splits list.splits)
  then show ?thesis by (simp add: untouched_create_container)
qed

lemma untouched_attach:
  "untouched (snd (attach_persistent env w)) = untouched w"
  by (auto simp: attach_persistent_def untouched_emit split: option.splits prod.splits)

lemma attach_not_broken:
  assumes "\<not> get_raises env" "\<not> reload_raises env" "\<not> start_raises env"
    "poll_status (polled env) 0 10 = Running"
  shows "fst (attach_persistent env w) \<noteq> Broken held"
  using assms by (auto simp: attach_persistent_def split: option.splits prod.splits)

lemma untouched_setup:
  assumes "\<not> get_raises env" "\<not> reload_raises env" "\<not> start_raises env"
    "poll_status (polled env) 0 10 = Running"
  shows "untouched (snd (snd (setup_sandbox env a w))) = untouched w"
proof (cases "custom_image a = None \<and> packages a = None")
  case False
  then show ?thesis by (auto simp: setup_sandbox_def untouched_create_sandbox)
next
  case True
  obtain r w' where at: "attach_persistent env w = (r, w')" by (cases "attach_persistent env w")
  with untouched_attach[of env w] have u: "untouched w' = untouched w" by simp
  show ?thesis
  proof (cases r)
    case (Attached c)
    with True at u show ?thesis by (simp add: setup_sandbox_def)
  next
    case Absent
    with True at u show ?thesis by (simp add: setup_sandbox_def untouched_create_sandbox)
  next
    case (Broken held)
    with attach_not_broken[OF assms, of w held] at show ?thesis by simp
  qed
qed

lemma untouched_step:
  assumes "attach_succeeds x"
  shows "untouched (world (step x s)) = untouched (world s)"
proof (cases x)
  case (Setup env a cenv)
  with assms have h: "\<not> get_raises env" "\<not> reload_raises env" "\<not> start_raises env"
    "poll_status (polled env) 0 10 = Running" by simp_all
  obtain r sb w where st: "setup_sandbox env a (world s) = (r, sb, w)"
    by (cases "setup_sandbox env a (world s)")
  with untouched_setup[OF h, of a "world s"] have "untouched w = untouched (world s)" by simp
  with Setup st show ?thesis by (cases r) (simp_all add: untouched_close)
next
  case (Close i cenv)
  then show ?thesis
    using untouched_close[of cenv "boxes s ! i" "world s"]
    by (auto split: prod.splits)
qed

lemma untouched_run_ops:
  "\<forall>x\<in>set ops. attach_succeeds x \<Longrightarrow> untouched (world (run_ops ops s)) = untouched (world s)"
  unfolding run_ops_def
  by (induction ops arbitrary: s) (simp_all add: untouched_step)

lemmas setup_defs = setup_sandbox_def attach_persistent_def recover_def create_sandbox_def
  create_container_def container_name_def is_default_setup_def sandbox_run_args_def
  docker_run_def docker_build_def docker_remove_def docker_stop_def docker_image_remove_def
  find_name_def find_id_def set_status_def delete_cont_def emit_def
  close_def close_container_def

lemmas sample_defs = default_args_def quiet_env_def stuck_env_def close_ok_def persistent_daemon_def

lemma poll_status_late: "poll_status (\<lambda>i. if i < 3 then Exited else Running) 0 10 = Running"
  by (simp add: eval_nat_numeral)

lemma poll_status_const: "poll_status (\<lambda>i. st) i n = st"
  by (induction n arbitrary: i) simp_all

lemma close_ephemeral:
  "close close_ok ephemeral_box ephemeral_daemon =
     (\<lparr>container = None, temp_image = None\<rparr>,
      \<lparr>conts = [(\<lparr>cid = 0, cname = persistent_name\<rparr>, Running)], images = [], next_id = 3,
       log = [Stop \<lparr>cid = 2, cname = lit ''python_sandbox_c0ffee00''\<rparr>,
              Remove \<lparr>cid = 2, cname = lit ''python_sandbox_c0ffee00''\<rparr>, ImageRemove 1]\<rparr>)"
  by (simp add: setup_defs close_ok_def ephemeral_box_def ephemeral_daemon_def persistent_name_def
        lit_def numeral_3_eq_3)

text \<open>
  Claim C9. After one \<^verbatim>\<open>close\<close>, whatever the runtime answered, both fields are
  \<^verbatim>\<open>None\<close>; a further \<^verbatim>\<open>close\<close> (the one of \<^verbatim>\<open>__del__\<close> included), on any
  daemon state and whatever the runtime would answer, returns the same object and the
  same daemon, log included: it issues no runtime call and has no failing branch.
\<close>

theorem close_is_idempotent:
  "container (fst (close env sb w)) = None
   \<and> temp_image (fst (close env sb w)) = None
   \<and> close env' (fst (close env sb w)) w' = (fst (close env sb w), w')
   \<and> close env' (fst (close env sb w)) (snd (close env sb w)) = close env sb w"
  using closed_fields[of env sb w] by (simp add: close_closed)

theorem close_is_idempotent_witness:
  "close close_ok (fst (close close_ok ephemeral_box ephemeral_daemon))
        (snd (close close_ok ephemeral_box ephemeral_daemon))
     = (\<lparr>container = None, temp_image = None\<rparr>,
        \<lparr>conts = [(\<lparr>cid = 0, cname = persistent_name\<rparr>, Running)], images = [], next_id = 3,
         log = [Stop \<lparr>cid = 2, cname = lit ''python_sandbox_c0ffee00''\<rparr>,
                Remove \<lparr>cid = 2, cname = lit ''python_sandbox_c0ffee00''\<rparr>, ImageRemove 1]\<rparr>)"
  using close_is_idempotent[of close_ok ephemeral_box ephemeral_daemon close_ok]
  by (simp add: close_ephemeral)

text \<open>
  Claim C1, as the code has it. \<^verbatim>\<open>close\<close> never issues a stop or a removal of a
  container that has the persistent name, and when the sandbox holds that container the
  daemon's containers are left as they are. In every sequence of setups and closes in
  which no call on the existing persistent container fails during a setup (the lookup,
  the reload and the start do not raise, and the container is seen running within the
  ten polls), no operation stops or removes a container of the persistent name.
\<close>

theorem persistent_untouched_without_recovery:
  "untouched (snd (close cenv sb w)) = untouched w
   \<and> (container sb = Some c \<and> cname c = persistent_name \<longrightarrow> conts (snd (close cenv sb w)) = conts w)
   \<and> ((\<forall>x\<in>set ops. attach_succeeds x) \<and> untouched (world s) \<longrightarrow> untouched (world (run_ops ops s)))"
  using untouched_close[of cenv sb w] close_persistent_conts[of sb c cenv w] untouched_run_ops[of ops s]
  by blast

theorem persistent_untouched_without_recovery_witness:
  "untouched (world (run_ops
       [Setup quiet_env default_args close_ok, Close 0 close_ok,
        Setup quiet_env default_args close_ok, Close 1 close_ok, Close 0 close_ok]
       \<lparr>world = persistent_daemon Exited, boxes = []\<rparr>))
   \<and> conts (snd (close close_ok
         \<lparr>container = Some \<lparr>cid = 0, cname = persistent_name\<rparr>, temp_image = None\<rparr>
         (persistent_daemon Running))) = conts (persistent_daemon Running)"
proof -
  have h: "\<forall>x\<in>set [Setup quiet_env default_args close_ok, Close 0 close_ok,
        Setup quiet_env default_args close_ok, Close 1 close_ok, Close 0 close_ok]. attach_succeeds x"
    by (simp add: quiet_env_def poll_status_const)
  have u: "untouched (world \<lparr>world = persistent_daemon Exited, boxes = []\<rparr>)"
    by (simp add: untouched_def persistent_daemon_def)
  from persistent_untouched_without_recovery[of close_ok
      "\<lparr>container = Some \<lparr>cid = 0, cname = persistent_name\<rparr>, temp_image = None\<rparr>"
      "persistent_daemon Running" "\<lparr>cid = 0, cname = persistent_name\<rparr>"
      "[Setup quiet_env default_args close_ok, Close 0 close_ok,
        Setup quiet_env default_args close_ok, Close 1 close_ok, Close 0 close_ok]"
      "\<lparr>world = persistent_daemon Exited, boxes = []\<rparr>"] h u
  show ?thesis by simp
qed

text \<open>
  Claim C1 as stated fails in the handler of \<^verbatim>\<open>_setup_sandbox\<close>: the persistent
  container exists but is exited, \<^verbatim>\<open>start\<close> returns and the ten polls never see it
  running, so the setup raises into \<^verbatim>\<open>except Exception\<close>, which removes the container
  with \<^verbatim>\<open>force=True\<close> before a new one is created under the same name.
\<close>

theorem setup_recovery_removes_persistent:
  "untouched (persistent_daemon Exited)
   \<and> \<not> untouched (world (run_ops [Setup stuck_env default_args close_ok]
                          \<lparr>world = persistent_daemon Exited, boxes = []\<rparr>))
   \<and> Remove \<lparr>cid = 0, cname = persistent_name\<rparr>
       \<in> set (log (world (run_ops [Setup stuck_env default_args close_ok]
                          \<lparr>world = persistent_daemon Exited, boxes = []\<rparr>)))
   \<and> find_id 0 (world (run_ops [Setup stuck_env default_args close_ok]
                          \<lparr>world = persistent_daemon Exited, boxes = []\<rparr>)) = None"
  by (simp add: run_ops_def setup_defs sample_defs untouched_def poll_status_const
        default_packages_def persistent_name_def lit_def)

section \<open>Setup with a custom image or packages\<close>


lemma r_name_sandbox_run_args [simp]: "r_name (sandbox_run_args a img n) = n"
  by (simp add: sandbox_run_args_def)







section \<open>The worker loop\<close>

lemma replies_append: "replies (a @ b) = replies a @ replies b"
  by (simp add: replies_def)

lemma replies_printed: "replies (map Printed ps) = []"
  by (induction ps) (simp_all add: replies_def)

lemma replies_chunk: "replies (map Printed ps @ [Reply r]) = [r]"
  by (simp add: replies_append replies_printed) (simp add: replies_def)






text \<open>Under \<^verbatim>\<open>surrogateescape\<close> every line decodes; under \<^verbatim>\<open>strict\<close>, every UTF-8 text.\<close>

lemma surrogateescape_decodes: "stdin_errors env = Surrogateescape \<Longrightarrow> decodes env raw"
  by (simp add: decodes_def decode_stdin_def)




















section \<open>The bash branch\<close>




lemma process_request_bash:
  assumes "dict_get kvs (lit ''code'') = Some (JStr c)" and "strip c \<noteq> []"
    and "dict_get kvs (lit ''language'') = Some (JStr (lit ''bash''))"
    and "shell env (outside s) c = (b, w')"
  shows "process_request env (JObj kvs) s
           = (Inr (bash_response (id_of kvs) (fst (execute_bash b))), [],
              \<lparr>outside = w', orphans = orphans s @ (if snd (execute_bash b) then [c] else [])\<rparr>)"
  using assms by (simp add: process_request_def id_of_def Let_def)






section \<open>The id of a response\<close>

text \<open>
  Every request that parses to a dict is answered by \<^verbatim>\<open>process_request\<close> itself, and
  the response carries the id of the request, \<^verbatim>\<open>unknown\<close> when it has none.
\<close>

lemma bash_response_id: "resp_id (bash_response i r) = Some i"
  by (cases r) (simp add: bash_response_def failure_def success_def)

lemma python_response_id: "resp_id (fst (python_response env i pkgs c w)) = Some i"
  by (simp add: python_response_def failure_def success_def
      split: option.splits prod.splits sum.splits)

lemma process_request_carries_id:
  assumes "process_request env (JObj kvs) s = (r, ps, s')"
  shows "\<exists>resp. r = Inr resp \<and> resp_id resp = Some (id_of kvs)"
proof (cases "\<exists>c. dict_get kvs (lit ''code'') = Some (JStr c)")
  case False
  then have "process_request env (JObj kvs) s
      = (Inr (failure (id_of kvs) (lit ''missing or empty code'') []), [], s)"
    by (auto simp: process_request_def id_of_def Let_def split: option.splits json.splits)
  with assms show ?thesis by (auto simp: failure_def)
next
  case True
  then obtain c where c: "dict_get kvs (lit ''code'') = Some (JStr c)" by blast
  let ?i = "id_of kvs"
  show ?thesis
  proof (cases "strip c = []")
    case True
    with c have "process_request env (JObj kvs) s
        = (Inr (failure ?i (lit ''missing or empty code'') []), [], s)"
      by (simp add: process_request_def id_of_def Let_def)
    with assms show ?thesis by (auto simp: failure_def)
  next
    case False
    show ?thesis
    proof (cases "dict_get kvs (lit ''language'') = Some (JStr (lit ''bash''))")
      case True
      obtain b w1 where sh: "shell env (outside s) c = (b, w1)"
        by (cases "shell env (outside s) c")
      from process_request_bash[OF c False True sh] assms
      show ?thesis by (auto simp: bash_response_id)
    next
      case nb: False
      let ?pk = "case dict_get kvs (lit ''packages'') of
             None \<Rightarrow> None | Some p \<Rightarrow> if truthy p then Some p else None"
      obtain resp ps1 w1 where py: "python_response env ?i ?pk c (outside s) = (resp, ps1, w1)"
        by (cases "python_response env ?i ?pk c (outside s)")
      have l: "(case dict_get kvs (lit ''language'') of
                  None \<Rightarrow> JStr (lit ''python'') | Some l \<Rightarrow> l) \<noteq> JStr (lit ''bash'')"
        using nb by (auto simp: lit_def split: option.splits)
      from c False l py have "process_request env (JObj kvs) s
          = (Inr resp, ps1, s\<lparr>outside := w1\<rparr>)"
        by (simp add: process_request_def id_of_def Let_def)
      moreover have "resp_id (fst (python_response env ?i ?pk c (outside s))) = Some ?i"
        by (rule python_response_id)
      then have "resp_id resp = Some ?i" unfolding py by simp
      ultimately show ?thesis using assms by simp
    qed
  qed
qed

end
